theory Spec2Isabelle
  imports Complex_Main "HOL-Library.Product_Lexorder"
begin

section \<open>Data model (models.py)\<close>

text \<open>
  Python's \<open>date\<close> and \<open>datetime\<close>: \<open>datetime\<close> is a subclass of \<open>date\<close>, so the
  second record extends the first. Values are compared field by field, most significant
  field first, which is the lexicographic order on the tuples below. The store compares a
  \<open>DateTime\<close> column with a \<open>date\<close> parameter by reading the date as midnight of that day.
\<close>

record date =
  year :: int
  month :: int
  day :: int

record datetime = date +
  hour :: int
  minute :: int
  second :: int
  microsecond :: int

definition date_key :: "'a date_scheme \<Rightarrow> int \<times> int \<times> int" where
  "date_key d = (year d, month d, day d)"

definition datetime_key :: "datetime \<Rightarrow> int \<times> int \<times> int \<times> int \<times> int \<times> int \<times> int" where
  "datetime_key t = (year t, month t, day t, hour t, minute t, second t, microsecond t)"

definition midnight :: "date \<Rightarrow> datetime" where
  "midnight d = \<lparr>year = year d, month = month d, day = day d,
                  hour = 0, minute = 0, second = 0, microsecond = 0\<rparr>"

text \<open>
  The tables. Columns that the code tests for \<open>None\<close> or for truthiness are options
  (\<open>last_login\<close>, \<open>notification_type\<close>, \<open>reminder_time\<close>, \<open>webhook_url\<close>,
  \<open>phone_number\<close>); the other columns carry their value. Only the columns that the
  tasks read are kept.
\<close>

record user =
  user_id_of :: int
  username :: string
  full_name :: string
  role :: string
  last_login :: "datetime option"

record subject =
  subject_id_of :: int
  subject_name :: string

record chapter_row =
  chapter_id_of :: int
  subject_id :: int
  chapter_name :: string

record quiz =
  quiz_id_of :: int
  chapter_id :: int
  title :: string
  date_of_quiz :: date
  is_active :: bool

record score =
  score_id_of :: int
  quiz_id :: int
  user_id :: int
  score :: int
  total_questions :: int
  attempt_date :: datetime
  time_taken :: int

record user_preference =
  pref_user_id :: int
  notification_type :: "string option"
  reminder_time :: "int option"
  webhook_url :: "string option"
  phone_number :: "string option"
  receive_daily_reminders :: bool
  receive_monthly_reports :: bool

text \<open>
  The store: every table is the list of its rows in the order in which the engine
  enumerates them. A query without \<open>order_by\<close> returns the matching rows in that order.
  The configured engine is SQLite (config.py, \<open>SQLALCHEMY_DATABASE_URI\<close>): the integer
  primary key \<open>id\<close> of a table is its rowid, a table is enumerated by ascending \<open>id\<close>,
  and a new row gets the greatest \<open>id\<close> of the table plus one. A statement that relies on
  the ascending order of a table says so in a hypothesis.
\<close>

record database =
  users :: "user list"
  subjects :: "subject list"
  chapters :: "chapter_row list"
  quizzes :: "quiz list"
  scores :: "score list"
  user_preferences :: "user_preference list"

section \<open>Python values\<close>

text \<open>Exceptions, each with the text that \<open>str(e)\<close> gives.\<close>

datatype exn =
    ValueError string
  | AttributeError string
  | ZeroDivisionError string
  | KeyError string
  | RuntimeError string
  | TransportError string

fun str_exn :: "exn \<Rightarrow> string" where
  "str_exn (ValueError m) = m"
| "str_exn (AttributeError m) = m"
| "str_exn (ZeroDivisionError m) = m"
| "str_exn (KeyError m) = m"
| "str_exn (RuntimeError m) = m"
| "str_exn (TransportError m) = m"

text \<open>\<open>str(n)\<close> for an integer.\<close>

fun str_nat :: "nat \<Rightarrow> string" where
  "str_nat n = (if n < 10 then [''0123456789'' ! n]
                else str_nat (n div 10) @ [''0123456789'' ! (n mod 10)])"

declare str_nat.simps [simp del]

definition str_int :: "int \<Rightarrow> string" where
  "str_int i = (if i < 0 then CHR ''-'' # str_nat (nat (- i)) else str_nat (nat i))"

text \<open>Truthiness of an optional string and of an optional integer.\<close>

fun truthy_str :: "string option \<Rightarrow> bool" where
  "truthy_str None = False"
| "truthy_str (Some s) = (s \<noteq> [])"

fun truthy_int :: "int option \<Rightarrow> bool" where
  "truthy_int None = False"
| "truthy_int (Some i) = (i \<noteq> 0)"

text \<open>
  True division \<open>a / b\<close> of two integers: raises \<open>ZeroDivisionError\<close> when \<open>b = 0\<close>.
  The quotient is kept exact (a rational); the rounding of the float is not modelled.
\<close>

definition truediv :: "int \<Rightarrow> int \<Rightarrow> exn + rat" where
  "truediv a b = (if b = 0 then Inl (ZeroDivisionError ''division by zero'')
                  else Inr (of_int a / of_int b))"

text \<open>
  \<open>strftime\<close> for the formats the tasks use. Years are taken to have four digits, as
  those of \<open>date.today()\<close> and of stored rows have.
\<close>

definition zfill2 :: "int \<Rightarrow> string" where
  "zfill2 i = (if 0 \<le> i \<and> i < 10 then CHR ''0'' # str_int i else str_int i)"

definition strftime_date :: "'a date_scheme \<Rightarrow> string" where
  "strftime_date d = str_int (year d) @ ''-'' @ zfill2 (month d) @ ''-'' @ zfill2 (day d)"

definition strftime_minutes :: "datetime \<Rightarrow> string" where
  "strftime_minutes t = strftime_date t @ '' '' @ zfill2 (hour t) @ '':'' @ zfill2 (minute t)"

definition strftime_seconds :: "datetime \<Rightarrow> string" where
  "strftime_seconds t = strftime_minutes t @ '':'' @ zfill2 (second t)"

definition strftime_stamp :: "datetime \<Rightarrow> string" where
  "strftime_stamp t = str_int (year t) @ zfill2 (month t) @ zfill2 (day t) @ ''_''
                      @ zfill2 (hour t) @ zfill2 (minute t) @ zfill2 (second t)"

definition month_names :: "string list" where
  "month_names = [''January'', ''February'', ''March'', ''April'', ''May'', ''June'', ''July'',
                  ''August'', ''September'', ''October'', ''November'', ''December'']"

definition strftime_month_year :: "date \<Rightarrow> string" where
  "strftime_month_year d =
     (if 1 \<le> month d \<and> month d \<le> 12 then month_names ! nat (month d - 1) else [])
     @ '' '' @ str_int (year d)"

text \<open>\<open>now - timedelta(days=n)\<close>: one calendar day back, \<open>n\<close> times.\<close>

definition is_leap :: "int \<Rightarrow> bool" where
  "is_leap y = (y mod 4 = 0 \<and> (y mod 100 \<noteq> 0 \<or> y mod 400 = 0))"

definition days_in_month :: "int \<Rightarrow> int \<Rightarrow> int" where
  "days_in_month y m =
     (if m = 2 then (if is_leap y then 29 else 28)
      else if m = 4 \<or> m = 6 \<or> m = 9 \<or> m = 11 then 30 else 31)"

definition prev_day :: "datetime \<Rightarrow> datetime" where
  "prev_day t =
     (if 1 < day t then t\<lparr>day := day t - 1\<rparr>
      else if 1 < month t then t\<lparr>month := month t - 1, day := days_in_month (year t) (month t - 1)\<rparr>
      else t\<lparr>year := year t - 1, month := 12, day := 31\<rparr>)"

fun minus_days :: "datetime \<Rightarrow> nat \<Rightarrow> datetime" where
  "minus_days t 0 = t"
| "minus_days t (Suc n) = minus_days (prev_day t) n"

text \<open>\<open>Model.query.get(id)\<close>: the row with that primary key, or \<open>None\<close>.\<close>

definition get_user :: "database \<Rightarrow> int \<Rightarrow> user option" where
  "get_user db i = find (\<lambda>u. user_id_of u = i) (users db)"

definition get_quiz :: "database \<Rightarrow> int \<Rightarrow> quiz option" where
  "get_quiz db i = find (\<lambda>q. quiz_id_of q = i) (quizzes db)"

definition get_chapter :: "database \<Rightarrow> int \<Rightarrow> chapter_row option" where
  "get_chapter db i = find (\<lambda>c. chapter_id_of c = i) (chapters db)"

definition get_subject :: "database \<Rightarrow> int \<Rightarrow> subject option" where
  "get_subject db i = find (\<lambda>s. subject_id_of s = i) (subjects db)"

text \<open>Reading an attribute of \<open>None\<close> raises \<open>AttributeError\<close>.\<close>

definition none_has_no :: "string \<Rightarrow> exn" where
  "none_has_no a = AttributeError ([CHR 0x27] @ ''NoneType'' @ [CHR 0x27]
                      @ '' object has no attribute '' @ [CHR 0x27] @ a @ [CHR 0x27])"

section \<open>Application start-up (app.py, create_app)\<close>

text \<open>
  Every task begins with \<open>create_app()\<close>, which adds the administrator's account to
  the user table when no user has the administrator's username, and commits. The tasks
  read the store that this leaves. The new row gets the next \<open>id\<close> of the table.
\<close>

definition ADMIN_USERNAME :: string where
  "ADMIN_USERNAME = ''admin@quizmaster.com''"

definition next_id :: "int list \<Rightarrow> int" where
  "next_id ids = (case ids of [] \<Rightarrow> 1 | i # js \<Rightarrow> fold max js i + 1)"

definition create_app :: "database \<Rightarrow> database" where
  "create_app db =
     (case find (\<lambda>u. username u = ADMIN_USERNAME) (users db) of
        Some admin \<Rightarrow> db
      | None \<Rightarrow>
          db\<lparr>users := users db @
                  [\<lparr>user_id_of = next_id (map user_id_of (users db)),
                    username = ADMIN_USERNAME, full_name = ''Administrator'',
                    role = ''admin'', last_login = None\<rparr>]\<rparr>)"

text \<open>
  The \<open>except\<close> handlers of the two scheduled tasks run after the block
  \<open>with app.app_context()\<close> has been left. There \<open>current_app.logger\<close> raises before
  anything is logged, and this exception (the first line of its text is kept) leaves the
  task in place of the one that was caught.
\<close>

definition outside_app_context :: exn where
  "outside_app_context = RuntimeError ''Working outside of application context.''"

section \<open>Percentages (models.py Score.to_dict; tasks.py)\<close>

text \<open>
  The expression \<open>(score / total * 100) if total > 0 else 0\<close>, which the source writes
  out at each of its four sites; the division is the fallible \<open>truediv\<close>.
\<close>

definition guarded_percentage :: "int \<Rightarrow> int \<Rightarrow> exn + rat" where
  "guarded_percentage s n =
     (if 0 < n then (case truediv s n of Inl e \<Rightarrow> Inl e | Inr q \<Rightarrow> Inr (q * 100)) else Inr 0)"

record score_dict =
  sd_id :: int
  sd_quiz_id :: int
  sd_user_id :: int
  sd_score :: int
  sd_total_questions :: int
  sd_percentage :: rat
  sd_attempt_date :: string
  sd_time_taken :: int

definition to_dict_percentage :: "score \<Rightarrow> exn + rat" where
  "to_dict_percentage self = guarded_percentage (score self) (total_questions self)"

definition Score_to_dict :: "score \<Rightarrow> exn + score_dict" where
  "Score_to_dict self =
     (case to_dict_percentage self of
        Inl e \<Rightarrow> Inl e
      | Inr p \<Rightarrow> Inr \<lparr>sd_id = score_id_of self, sd_quiz_id = quiz_id self,
                       sd_user_id = user_id self, sd_score = score self,
                       sd_total_questions = total_questions self, sd_percentage = p,
                       sd_attempt_date = strftime_seconds (attempt_date self),
                       sd_time_taken = time_taken self\<rparr>)"

text \<open>\<open>percentage\<close> in \<open>export_user_attempts_csv\<close> and in \<open>send_monthly_reports\<close>.\<close>

definition export_percentage :: "score \<Rightarrow> exn + rat" where
  "export_percentage attempt = guarded_percentage (score attempt) (total_questions attempt)"

definition report_percentage :: "score \<Rightarrow> exn + rat" where
  "report_percentage attempt = guarded_percentage (score attempt) (total_questions attempt)"

text \<open>\<open>avg_percentage\<close> in \<open>send_monthly_reports\<close>, over the sums of the month's attempts.\<close>

definition avg_percentage :: "score list \<Rightarrow> exn + rat" where
  "avg_percentage attempts =
     (let total_score = sum_list (map score attempts);
          total_questions = sum_list (map total_questions attempts)
      in guarded_percentage total_score total_questions)"

section \<open>Rank of an attempt (tasks.py, send_monthly_reports)\<close>

text \<open>
  The query \<open>count(Score.id) + 1\<close> over the rows with the attempt's quiz and a greater
  score, followed by \<open>or 1\<close>.
\<close>

definition rank_for_attempt :: "database \<Rightarrow> score \<Rightarrow> int" where
  "rank_for_attempt db attempt =
     (let r = int (length (filter (\<lambda>s. quiz_id s = quiz_id attempt \<and> score attempt < score s)
                                  (scores db))) + 1
      in if r = 0 then 1 else r)"

definition total_attempts_for_quiz :: "database \<Rightarrow> score \<Rightarrow> int" where
  "total_attempts_for_quiz db attempt =
     int (length (filter (\<lambda>s. quiz_id s = quiz_id attempt) (scores db)))"

section \<open>Effects and environment\<close>

text \<open>
  What a task hands to a transport or to the logger is recorded as an event, in the order
  of the calls. A rendered template is kept as the template's name with its context.
\<close>

datatype widget = TextParagraph string | Buttons "(string \<times> string) list"

datatype card_section = Section "string option" "widget list"

datatype payload = Text string | Cards string "card_section list"

record attempt_detail =
  ad_quiz_title :: string
  ad_subject :: string
  ad_chapter :: string
  ad_score :: int
  ad_total :: int
  ad_percentage :: rat
  ad_date :: string

record ranking =
  rk_rank :: int
  rk_total :: int

datatype html =
    DailyReminder user "quiz list" date
  | MonthlyReport user string int rat "attempt_detail list" "(string \<times> ranking) list"

record message =
  msg_subject :: string
  msg_recipients :: "string list"
  msg_html :: html
  msg_sender :: "string option"

datatype event =
    MailSend message
  | HttpPost string payload
  | TwilioCreate string string string
  | LogError string
  | LogWarning string

text \<open>
  The environment of a run: the clock (\<open>date.today()\<close> and \<open>datetime.now()\<close> at the start
  of the task, and \<open>datetime.now()\<close> as read in the loop body for the k-th user), the
  transports (an exception they raise is \<open>Some e\<close> or \<open>Inl e\<close>; the HTTP transport
  otherwise gives the status code of the response) and the configuration keys.
\<close>

record env =
  today :: date
  now :: datetime
  loop_now :: "nat \<Rightarrow> datetime"
  mail_send :: "message \<Rightarrow> exn option"
  requests_post :: "string \<Rightarrow> payload \<Rightarrow> exn + int"
  twilio_create :: "string \<Rightarrow> string \<Rightarrow> string \<Rightarrow> exn option"
  TWILIO_ACCOUNT_SID :: "string option"
  TWILIO_AUTH_TOKEN :: "string option"
  TWILIO_PHONE_NUMBER :: "string option"
  MAIL_DEFAULT_SENDER :: "string option"
  APP_URL :: "string option"

section \<open>Notification channels (tasks.py)\<close>

text \<open>
  The payload: the plain text, or a card when a title or sections are given
  (\<open>title or "Quiz Master Notification"\<close>, \<open>sections or []\<close>).
\<close>

definition webhook_payload :: "string \<Rightarrow> string option \<Rightarrow> card_section list option \<Rightarrow> payload" where
  "webhook_payload message_text title_arg sections =
     (if truthy_str title_arg \<or> (case sections of None \<Rightarrow> False | Some ss \<Rightarrow> ss \<noteq> [])
      then Cards (case title_arg of None \<Rightarrow> ''Quiz Master Notification''
                  | Some t \<Rightarrow> if t = [] then ''Quiz Master Notification'' else t)
                 (case sections of None \<Rightarrow> [] | Some ss \<Rightarrow> ss)
      else Text message_text)"

definition send_gchat_webhook ::
  "env \<Rightarrow> string option \<Rightarrow> string \<Rightarrow> string option \<Rightarrow> card_section list option
     \<Rightarrow> bool \<times> event list" where
  "send_gchat_webhook e url_arg message_text title_arg sections =
     (case url_arg of
        None \<Rightarrow> (False, [])
      | Some url \<Rightarrow>
         if url = [] then (False, [])
         else
           (let payload = webhook_payload message_text title_arg sections
            in case requests_post e url payload of
                 Inr status_code \<Rightarrow> (status_code = 200, [HttpPost url payload])
               | Inl ex \<Rightarrow> (False, [HttpPost url payload,
                                    LogError (''Google Chat webhook error: '' @ str_exn ex)])))"

definition send_sms_notification :: "env \<Rightarrow> string \<Rightarrow> string \<Rightarrow> bool \<times> event list" where
  "send_sms_notification e phone message_body =
     (if \<not> (truthy_str (TWILIO_ACCOUNT_SID e) \<and> truthy_str (TWILIO_AUTH_TOKEN e)
             \<and> truthy_str (TWILIO_PHONE_NUMBER e))
      then (False, [LogWarning ''Twilio credentials not configured''])
      else case TWILIO_PHONE_NUMBER e of
        None \<Rightarrow> (False, [LogWarning ''Twilio credentials not configured''])
      | Some from_number \<Rightarrow>
         (case twilio_create e message_body from_number phone of
            None \<Rightarrow> (True, [TwilioCreate message_body from_number phone])
          | Some ex \<Rightarrow> (False, [TwilioCreate message_body from_number phone,
                               LogError (''Twilio SMS error: '' @ str_exn ex)])))"

section \<open>Daily reminders (tasks.py, send_daily_reminders)\<close>

text \<open>
  \<open>order_by(Quiz.date_of_quiz)\<close> names the date as the only sort key. Rows with equal
  dates keep the order in which the engine enumerates the table (the sort is stable).
\<close>

definition upcoming_quizzes :: "database \<Rightarrow> date \<Rightarrow> quiz list" where
  "upcoming_quizzes db td =
     take 5 (sort_key (\<lambda>q. date_key (date_of_quiz q))
               (filter (\<lambda>q. is_active q \<and> date_key td \<le> date_key (date_of_quiz q)) (quizzes db)))"

definition inactive_users :: "database \<Rightarrow> datetime \<Rightarrow> user list" where
  "inactive_users db recent_date =
     filter (\<lambda>u. role u = ''user''
                 \<and> (case last_login u of None \<Rightarrow> True
                     | Some t \<Rightarrow> datetime_key t < datetime_key recent_date))
            (users db)"

definition user_quiz_ids :: "database \<Rightarrow> user \<Rightarrow> int list" where
  "user_quiz_ids db u = map quiz_id (filter (\<lambda>s. user_id s = user_id_of u) (scores db))"

definition new_quizzes :: "database \<Rightarrow> quiz list \<Rightarrow> user \<Rightarrow> quiz list" where
  "new_quizzes db upcoming u =
     filter (\<lambda>q. quiz_id_of q \<notin> set (user_quiz_ids db u)) upcoming"

definition user_pref_of :: "database \<Rightarrow> user \<Rightarrow> user_preference option" where
  "user_pref_of db u = find (\<lambda>p. pref_user_id p = user_id_of u) (user_preferences db)"

text \<open>
  \<open>notification_type = 'email'; reminder_time = 18\<close>, replaced when a preference row
  exists by \<open>user_pref.notification_type or 'email'\<close> and \<open>user_pref.reminder_time or 18\<close>.
\<close>

definition resolve_notification_type :: "user_preference option \<Rightarrow> string" where
  "resolve_notification_type user_pref =
     (case user_pref of
        None \<Rightarrow> ''email''
      | Some p \<Rightarrow> (case notification_type p of
                     None \<Rightarrow> ''email''
                   | Some s \<Rightarrow> if s = [] then ''email'' else s))"

definition resolve_reminder_time :: "user_preference option \<Rightarrow> int" where
  "resolve_reminder_time user_pref =
     (case user_pref of
        None \<Rightarrow> 18
      | Some p \<Rightarrow> (case reminder_time p of
                     None \<Rightarrow> 18
                   | Some h \<Rightarrow> if h = 0 then 18 else h))"

fun quiz_info :: "int \<Rightarrow> quiz list \<Rightarrow> string list" where
  "quiz_info i [] = []"
| "quiz_info i (q # qs) =
     (str_int i @ ''. '' @ title q @ '' ('' @ strftime_date (date_of_quiz q) @ '')'')
     # quiz_info (i + 1) qs"

fun join_lines :: "string list \<Rightarrow> string" where
  "join_lines [] = []"
| "join_lines [x] = x"
| "join_lines (x # y # ys) = x @ [CHR 0x0A] @ join_lines (y # ys)"

definition reminder_sections :: "env \<Rightarrow> string \<Rightarrow> card_section list" where
  "reminder_sections e quiz_list =
     [Section (Some ''New Quizzes Available'') [TextParagraph quiz_list],
      Section None [Buttons [(''Go to Quiz Master'',
                              (case APP_URL e of None \<Rightarrow> ''https://quizmaster.com'' | Some u \<Rightarrow> u))]]]"

text \<open>
  The \<open>if / elif / elif\<close> chain on the resolved channel. The result is the exception that
  leaves the loop body, or the amount added to \<open>reminders_sent\<close>.
\<close>

definition dispatch_reminder ::
  "env \<Rightarrow> user \<Rightarrow> quiz list \<Rightarrow> user_preference option \<Rightarrow> string \<Rightarrow> (exn + int) \<times> event list" where
  "dispatch_reminder e u nq user_pref ntype =
     (let quiz_list = join_lines (quiz_info 1 nq) in
      if ntype = ''email'' then
        (let msg = \<lparr>msg_subject = ''Quiz Master - Daily Reminder'',
                    msg_recipients = [username u],
                    msg_html = DailyReminder u nq (today e),
                    msg_sender = MAIL_DEFAULT_SENDER e\<rparr>
         in case mail_send e msg of
              None \<Rightarrow> (Inr 1, [MailSend msg])
            | Some ex \<Rightarrow> (Inl ex, [MailSend msg]))
      else if ntype = ''gchat'' then
        (case user_pref of
           None \<Rightarrow> (Inl (none_has_no ''webhook_url''), [])
         | Some p \<Rightarrow>
            if truthy_str (webhook_url p) then
              (case send_gchat_webhook e (webhook_url p)
                      (''Hi '' @ full_name u @ '', you have '' @ str_int (int (length nq))
                       @ '' new quizzes available!'')
                      (Some ''Quiz Master Daily Reminder'')
                      (Some (reminder_sections e quiz_list)) of
                 (success, evs) \<Rightarrow> (Inr (if success then 1 else 0), evs))
            else (Inr 0, []))
      else if ntype = ''sms'' then
        (case user_pref of
           None \<Rightarrow> (Inl (none_has_no ''phone_number''), [])
         | Some p \<Rightarrow>
            (case phone_number p of
               None \<Rightarrow> (Inr 0, [])
             | Some ph \<Rightarrow>
                if ph = [] then (Inr 0, [])
                else (case send_sms_notification e ph
                             (''Hi '' @ full_name u @ '', you have '' @ str_int (int (length nq))
                              @ '' new quizzes available on Quiz Master:'' @ [CHR 0x0A, CHR 0x0A]
                              @ quiz_list @ [CHR 0x0A, CHR 0x0A] @ ''Login to attempt them!'') of
                        (success, evs) \<Rightarrow> (Inr (if success then 1 else 0), evs))))
      else (Inr 0, []))"

text \<open>The loop body for the k-th inactive user.\<close>

definition remind_user ::
  "env \<Rightarrow> database \<Rightarrow> quiz list \<Rightarrow> nat \<Rightarrow> user \<Rightarrow> (exn + int) \<times> event list" where
  "remind_user e db upcoming k u =
     (let nq = new_quizzes db upcoming u in
      if nq = [] then (Inr 0, [])
      else
        (let user_pref = user_pref_of db u;
             ntype = resolve_notification_type user_pref;
             rtime = resolve_reminder_time user_pref;
             current_hour = hour (loop_now e k)
         in if current_hour \<noteq> rtime then (Inr 0, [])
            else dispatch_reminder e u nq user_pref ntype))"

fun remind_loop ::
  "env \<Rightarrow> database \<Rightarrow> quiz list \<Rightarrow> nat \<Rightarrow> user list \<Rightarrow> int \<Rightarrow> (exn + int) \<times> event list" where
  "remind_loop e db upcoming k [] reminders_sent = (Inr reminders_sent, [])"
| "remind_loop e db upcoming k (u # us) reminders_sent =
     (case remind_user e db upcoming k u of
        (Inl ex, evs) \<Rightarrow> (Inl ex, evs)
      | (Inr n, evs) \<Rightarrow>
          (case remind_loop e db upcoming (Suc k) us (reminders_sent + n) of
             (r, evs') \<Rightarrow> (r, evs @ evs')))"

definition send_daily_reminders :: "env \<Rightarrow> database \<Rightarrow> (exn + string) \<times> event list" where
  "send_daily_reminders e db =
     (let app_db = create_app db;
          upcoming = upcoming_quizzes app_db (today e);
          recent_date = minus_days (now e) 3;
          inactive = inactive_users app_db recent_date
      in case remind_loop e app_db upcoming 0 inactive 0 of
           (Inr reminders_sent, evs) \<Rightarrow>
             (Inr (''Daily reminders sent to '' @ str_int reminders_sent @ '' users''), evs)
         | (Inl ex, evs) \<Rightarrow> (Inl outside_app_context, evs))"

section \<open>Monthly reports (tasks.py, send_monthly_reports)\<close>

definition first_day_of :: "date \<Rightarrow> date" where
  "first_day_of td = \<lparr>year = year td, month = month td, day = 1\<rparr>"

definition last_month_of :: "date \<Rightarrow> date" where
  "last_month_of td =
     (if month td = 1 then \<lparr>year = year td - 1, month = 12, day = 1\<rparr>
      else \<lparr>year = year td, month = month td - 1, day = 1\<rparr>)"

definition monthly_attempts :: "database \<Rightarrow> user \<Rightarrow> date \<Rightarrow> date \<Rightarrow> score list" where
  "monthly_attempts db u last_month first_day =
     filter (\<lambda>s. user_id s = user_id_of u
                 \<and> datetime_key (midnight last_month) \<le> datetime_key (attempt_date s)
                 \<and> datetime_key (attempt_date s) < datetime_key (midnight first_day))
            (scores db)"

definition attempt_detail_of :: "database \<Rightarrow> score \<Rightarrow> exn + attempt_detail" where
  "attempt_detail_of db attempt =
     (case get_quiz db (quiz_id attempt) of
        None \<Rightarrow> Inl (none_has_no ''chapter_id'')
      | Some qz \<Rightarrow>
        (case get_chapter db (chapter_id qz) of
           None \<Rightarrow> Inl (none_has_no ''subject_id'')
         | Some ch \<Rightarrow>
           (case report_percentage attempt of
              Inl ex \<Rightarrow> Inl ex
            | Inr percentage \<Rightarrow>
              (case get_subject db (subject_id ch) of
                 None \<Rightarrow> Inl (none_has_no ''name'')
               | Some sb \<Rightarrow>
                   Inr \<lparr>ad_quiz_title = title qz, ad_subject = subject_name sb,
                        ad_chapter = chapter_name ch, ad_score = score attempt,
                        ad_total = total_questions attempt, ad_percentage = percentage,
                        ad_date = strftime_minutes (attempt_date attempt)\<rparr>))))"

fun attempt_details :: "database \<Rightarrow> score list \<Rightarrow> exn + attempt_detail list" where
  "attempt_details db [] = Inr []"
| "attempt_details db (a # as) =
     (case attempt_detail_of db a of
        Inl ex \<Rightarrow> Inl ex
      | Inr d \<Rightarrow> (case attempt_details db as of
                    Inl ex \<Rightarrow> Inl ex
                  | Inr ds \<Rightarrow> Inr (d # ds)))"

text \<open>\<open>d[k] = v\<close> on a dictionary kept as the list of its items in insertion order.\<close>

fun dict_set :: "'k \<Rightarrow> 'v \<Rightarrow> ('k \<times> 'v) list \<Rightarrow> ('k \<times> 'v) list" where
  "dict_set k v [] = [(k, v)]"
| "dict_set k v ((k', v') # kvs) =
     (if k' = k then (k, v) # kvs else (k', v') # dict_set k v kvs)"

fun user_rankings ::
  "database \<Rightarrow> score list \<Rightarrow> (string \<times> ranking) list \<Rightarrow> exn + (string \<times> ranking) list" where
  "user_rankings db [] acc = Inr acc"
| "user_rankings db (a # as) acc =
     (let rank = rank_for_attempt db a;
          total = total_attempts_for_quiz db a
      in case get_quiz db (quiz_id a) of
           None \<Rightarrow> Inl (none_has_no ''title'')
         | Some qz \<Rightarrow>
             user_rankings db as (dict_set (title qz) \<lparr>rk_rank = rank, rk_total = total\<rparr> acc))"

text \<open>The loop body for one user: the exception that leaves it, or nothing.\<close>

definition report_user ::
  "env \<Rightarrow> database \<Rightarrow> date \<Rightarrow> date \<Rightarrow> user \<Rightarrow> (exn + unit) \<times> event list" where
  "report_user e db last_month first_day u =
     (let attempts = monthly_attempts db u last_month first_day in
      if attempts = [] then (Inr (), [])
      else
        (case avg_percentage attempts of
           Inl ex \<Rightarrow> (Inl ex, [])
         | Inr avg \<Rightarrow>
           (case attempt_details db attempts of
              Inl ex \<Rightarrow> (Inl ex, [])
            | Inr details \<Rightarrow>
              (case user_rankings db attempts [] of
                 Inl ex \<Rightarrow> (Inl ex, [])
               | Inr rankings \<Rightarrow>
                 (case MAIL_DEFAULT_SENDER e of
                    None \<Rightarrow> (Inl (KeyError ''MAIL_DEFAULT_SENDER''), [])
                  | Some sender \<Rightarrow>
                     (let msg = \<lparr>msg_subject = ''Quiz Master - Monthly Activity Report (''
                                               @ strftime_month_year last_month @ '')'',
                                 msg_recipients = [username u],
                                 msg_html = MonthlyReport u (strftime_month_year last_month)
                                              (int (length attempts)) avg details rankings,
                                 msg_sender = Some sender\<rparr>
                      in case mail_send e msg of
                           None \<Rightarrow> (Inr (), [MailSend msg])
                         | Some ex \<Rightarrow> (Inl ex, [MailSend msg])))))))"

fun report_loop ::
  "env \<Rightarrow> database \<Rightarrow> date \<Rightarrow> date \<Rightarrow> user list \<Rightarrow> (exn + unit) \<times> event list" where
  "report_loop e db last_month first_day [] = (Inr (), [])"
| "report_loop e db last_month first_day (u # us) =
     (case report_user e db last_month first_day u of
        (Inl ex, evs) \<Rightarrow> (Inl ex, evs)
      | (Inr _, evs) \<Rightarrow>
          (case report_loop e db last_month first_day us of
             (r, evs') \<Rightarrow> (r, evs @ evs')))"

definition report_users :: "database \<Rightarrow> user list" where
  "report_users db = filter (\<lambda>u. role u = ''user'') (users db)"

definition send_monthly_reports :: "env \<Rightarrow> database \<Rightarrow> (exn + string) \<times> event list" where
  "send_monthly_reports e db =
     (let app_db = create_app db;
          first_day = first_day_of (today e);
          last_month = last_month_of (today e);
          us = report_users app_db
      in case report_loop e app_db last_month first_day us of
           (Inr _, evs) \<Rightarrow>
             (Inr (''Monthly reports sent to '' @ str_int (int (length us)) @ '' users''), evs)
         | (Inl ex, evs) \<Rightarrow> (Inl outside_app_context, evs))"

section \<open>Export of a user's attempts (tasks.py, export_user_attempts_csv)\<close>

text \<open>
  The file is kept as the rows handed to the CSV writer. A cell is an integer, a string,
  a percentage that the source prints with two decimals and a percent sign, or the text
  \<open>Pass\<close> or \<open>Fail\<close> that the source chooses by comparing its floating-point percentage
  with 60: this last cell carries the exact percentage, and which of the two texts the
  float gives is not decided here. The file system is the list of the files with their
  content; the task's state is what \<open>update_state\<close> last recorded.
\<close>

datatype cell = IntCell int | StrCell string | PercentCell rat | PassFailCell rat

record export_descriptor =
  filename :: string
  filepath :: string
  download_url :: string

record world =
  files :: "(string \<times> cell list list) list"
  task_state :: "(string \<times> string) option"

definition attempts_header :: "cell list" where
  "attempts_header = map StrCell
     [''Quiz ID'', ''Quiz Title'', ''Subject'', ''Chapter'', ''Date Attempted'',
      ''Time Taken (seconds)'', ''Score'', ''Total Questions'', ''Percentage'', ''Pass/Fail'']"

definition export_row :: "database \<Rightarrow> score \<Rightarrow> exn + cell list" where
  "export_row db attempt =
     (case get_quiz db (quiz_id attempt) of
        None \<Rightarrow> Inl (none_has_no ''chapter_id'')
      | Some qz \<Rightarrow>
        (case get_chapter db (chapter_id qz) of
           None \<Rightarrow> Inl (none_has_no ''subject_id'')
         | Some ch \<Rightarrow>
           (case export_percentage attempt of
              Inl ex \<Rightarrow> Inl ex
            | Inr percentage \<Rightarrow>
              (case get_subject db (subject_id ch) of
                 None \<Rightarrow> Inl (none_has_no ''name'')
               | Some sb \<Rightarrow>
                   Inr [IntCell (quiz_id_of qz), StrCell (title qz), StrCell (subject_name sb),
                        StrCell (chapter_name ch),
                        StrCell (strftime_seconds (attempt_date attempt)),
                        IntCell (time_taken attempt), IntCell (score attempt),
                        IntCell (total_questions attempt), PercentCell percentage,
                        PassFailCell percentage]))))"

fun export_rows :: "database \<Rightarrow> score list \<Rightarrow> exn + cell list list" where
  "export_rows db [] = Inr []"
| "export_rows db (a # as) =
     (case export_row db a of
        Inl ex \<Rightarrow> Inl ex
      | Inr r \<Rightarrow> (case export_rows db as of
                    Inl ex \<Rightarrow> Inl ex
                  | Inr rs \<Rightarrow> Inr (r # rs)))"

text \<open>
  The body of the \<open>try\<close> after \<open>create_app()\<close> and up to \<open>csv_content\<close>: the lookup of
  the user and the rows, on the store that \<open>create_app\<close> has left.
\<close>

definition csv_content :: "database \<Rightarrow> int \<Rightarrow> exn + cell list list" where
  "csv_content db uid =
     (case get_user db uid of
        None \<Rightarrow> Inl (ValueError (''User with ID '' @ str_int uid @ '' not found''))
      | Some u \<Rightarrow>
         (case export_rows db (filter (\<lambda>s. user_id s = uid) (scores db)) of
            Inl ex \<Rightarrow> Inl ex
          | Inr rs \<Rightarrow> Inr (attempts_header # rs)))"

definition export_user_attempts_csv ::
  "env \<Rightarrow> database \<Rightarrow> world \<Rightarrow> int \<Rightarrow> (exn + export_descriptor) \<times> world" where
  "export_user_attempts_csv e db w uid =
     (case csv_content (create_app db) uid of
        Inl ex \<Rightarrow> (Inl ex, w\<lparr>task_state := Some (''FAILURE'', str_exn ex)\<rparr>)
      | Inr content \<Rightarrow>
         (let fname = ''user_'' @ str_int uid @ ''_attempts_'' @ strftime_stamp (now e) @ ''.csv'';
              fpath = ''/tmp/'' @ fname
          in (Inr \<lparr>filename = fname, filepath = fpath,
                   download_url = ''/api/user/export/download/'' @ fname\<rparr>,
              w\<lparr>files := dict_set fpath content (files w)\<rparr>)))"

section \<open>Notions used in the statements\<close>

text \<open>
  The calendar month of a date, counted from year 0: two dates lie in consecutive calendar
  months when their indices differ by one. \<open>spec_in_previous_month td t\<close> says, in the
  words of the specification, that \<open>t\<close> lies in the calendar month immediately preceding
  that of \<open>td\<close>.
\<close>

definition month_index :: "'a date_scheme \<Rightarrow> int" where
  "month_index d = year d * 12 + (month d - 1)"

definition spec_in_previous_month :: "date \<Rightarrow> datetime \<Rightarrow> bool" where
  "spec_in_previous_month td t = (month_index t + 1 = month_index td)"

text \<open>The field ranges of a stored timestamp that the comparison of timestamps relies on.\<close>

definition valid_datetime :: "datetime \<Rightarrow> bool" where
  "valid_datetime t = (1 \<le> month t \<and> month t \<le> 12 \<and> 1 \<le> day t \<and> 0 \<le> hour t
                       \<and> 0 \<le> minute t \<and> 0 \<le> second t \<and> 0 \<le> microsecond t)"

text \<open>
  Two stores differ at most in the opt-in flags when all tables but the preferences are
  equal and the preference tables are equal once both flags are overwritten in every row.
\<close>

definition clear_flags :: "user_preference \<Rightarrow> user_preference" where
  "clear_flags p = p\<lparr>receive_daily_reminders := True, receive_monthly_reports := True\<rparr>"

definition same_but_flags :: "database \<Rightarrow> database \<Rightarrow> bool" where
  "same_but_flags db db' =
     (users db = users db' \<and> subjects db = subjects db' \<and> chapters db = chapters db'
      \<and> quizzes db = quizzes db' \<and> scores db = scores db'
      \<and> map clear_flags (user_preferences db) = map clear_flags (user_preferences db'))"

section \<open>Example states\<close>

text \<open>Three attempts on quiz 1 scoring 10, 8 and 8 out of 10.\<close>

definition t0 :: datetime where
  "t0 = \<lparr>year = 2024, month = 5, day = 17, hour = 9, minute = 30, second = 0, microsecond = 0\<rparr>"

definition mk_score :: "int \<Rightarrow> int \<Rightarrow> int \<Rightarrow> int \<Rightarrow> int \<Rightarrow> score" where
  "mk_score i q u s n = \<lparr>score_id_of = i, quiz_id = q, user_id = u, score = s,
                          total_questions = n, attempt_date = t0, time_taken = 60\<rparr>"

definition db_rank :: database where
  "db_rank = \<lparr>users = [], subjects = [], chapters = [], quizzes = [],
              scores = [mk_score 1 1 1 10 10, mk_score 2 1 2 8 10, mk_score 3 1 3 8 10,
                        mk_score 4 2 1 9 10],
              user_preferences = []\<rparr>"

text \<open>
  A small store. Ann (no preference row) and Bob (a preference row with both opt-in
  flags off, channel unset and reminder hour 0) have never logged in; Cy is an admin.
  Quizzes 1 and 2 are upcoming on 1 June 2024, quiz 3 is past; quiz 4 is inactive. Ann
  attempted quiz 3 on 17 May 2024.
\<close>

definition mk_date :: "int \<Rightarrow> int \<Rightarrow> int \<Rightarrow> date" where
  "mk_date y m d = \<lparr>year = y, month = m, day = d\<rparr>"

definition mk_user :: "int \<Rightarrow> string \<Rightarrow> string \<Rightarrow> string \<Rightarrow> user" where
  "mk_user i un fn r = \<lparr>user_id_of = i, username = un, full_name = fn, role = r,
                         last_login = None\<rparr>"

definition mk_quiz :: "int \<Rightarrow> string \<Rightarrow> date \<Rightarrow> bool \<Rightarrow> quiz" where
  "mk_quiz i t d a = \<lparr>quiz_id_of = i, chapter_id = 1, title = t, date_of_quiz = d,
                       is_active = a\<rparr>"

definition ann :: user where
  "ann = mk_user 1 ''ann@example.com'' ''Ann'' ''user''"

definition bob :: user where
  "bob = mk_user 2 ''bob@example.com'' ''Bob'' ''user''"

definition cy :: user where
  "cy = mk_user 3 ''admin@quizmaster.com'' ''Cy'' ''admin''"

definition bob_pref :: user_preference where
  "bob_pref = \<lparr>pref_user_id = 2, notification_type = Some [], reminder_time = Some 0,
               webhook_url = None, phone_number = None,
               receive_daily_reminders = False, receive_monthly_reports = False\<rparr>"

definition db_demo :: database where
  "db_demo = \<lparr>users = [ann, bob, cy],
              subjects = [\<lparr>subject_id_of = 1, subject_name = ''Maths''\<rparr>],
              chapters = [\<lparr>chapter_id_of = 1, subject_id = 1, chapter_name = ''Algebra''\<rparr>],
              quizzes = [mk_quiz 1 ''Groups'' (mk_date 2024 6 20) True,
                         mk_quiz 2 ''Rings'' (mk_date 2024 6 10) True,
                         mk_quiz 3 ''Sets'' (mk_date 2024 5 17) True,
                         mk_quiz 4 ''Fields'' (mk_date 2024 6 5) False],
              scores = [mk_score 1 3 1 15 10],
              user_preferences = [bob_pref]\<rparr>"

text \<open>The same store with Bob opted in to both notifications.\<close>

definition db_demo_opted_in :: database where
  "db_demo_opted_in =
     db_demo\<lparr>user_preferences :=
               [bob_pref\<lparr>receive_daily_reminders := True, receive_monthly_reports := True\<rparr>]\<rparr>"

text \<open>
  A run on 1 June 2024 in hour \<open>h\<close> in which every transport succeeds (the HTTP
  transport with status 200); the Twilio keys are not configured.
\<close>

definition env_demo :: "int \<Rightarrow> env" where
  "env_demo h =
     \<lparr>today = mk_date 2024 6 1,
      now = \<lparr>year = 2024, month = 6, day = 1, hour = h, minute = 0, second = 0, microsecond = 0\<rparr>,
      loop_now = (\<lambda>k. \<lparr>year = 2024, month = 6, day = 1, hour = h, minute = 0, second = 0,
                        microsecond = 0\<rparr>),
      mail_send = (\<lambda>m. None),
      requests_post = (\<lambda>u p. Inr 200),
      twilio_create = (\<lambda>b f t. None),
      TWILIO_ACCOUNT_SID = None,
      TWILIO_AUTH_TOKEN = None,
      TWILIO_PHONE_NUMBER = None,
      MAIL_DEFAULT_SENDER = Some ''noreply@quizmaster.com'',
      APP_URL = Some ''http://localhost:5000''\<rparr>"

text \<open>A run in January 2025.\<close>

definition env_january :: env where
  "env_january = (env_demo 8)\<lparr>today := mk_date 2025 1 1\<rparr>"

text \<open>A transport that fails, and one that answers with status 404.\<close>

definition env_unreachable :: env where
  "env_unreachable = (env_demo 18)\<lparr>requests_post := (\<lambda>u p. Inl (TransportError ''connection refused''))\<rparr>"

definition env_not_found :: env where
  "env_not_found = (env_demo 18)\<lparr>requests_post := (\<lambda>u p. Inr 404)\<rparr>"

text \<open>
  A store with two active quizzes on 10 June 2024 and an earlier one with a greater
  identifier, and no user at all.
\<close>

definition db_same_day :: database where
  "db_same_day = \<lparr>users = [], subjects = [], chapters = [],
                  quizzes = [mk_quiz 1 ''Groups'' (mk_date 2024 6 10) True,
                             mk_quiz 2 ''Rings'' (mk_date 2024 6 10) True,
                             mk_quiz 3 ''Fields'' (mk_date 2024 6 5) True],
                  scores = [], user_preferences = []\<rparr>"

text \<open>Ann and Bob alone: a store in which the administrator's account is still missing.\<close>

definition db_no_admin :: database where
  "db_no_admin = db_demo\<lparr>users := [ann, bob]\<rparr>"

definition empty_world :: world where
  "empty_world = \<lparr>files = [], task_state = None\<rparr>"

text \<open>
  Ann's attempts around the turn of the year: the last second of November, the first
  instant and the last second of December, and the first instant of January.
\<close>

definition mk_time :: "int \<Rightarrow> int \<Rightarrow> int \<Rightarrow> int \<Rightarrow> int \<Rightarrow> int \<Rightarrow> datetime" where
  "mk_time y m d h mi s = \<lparr>year = y, month = m, day = d, hour = h, minute = mi, second = s,
                            microsecond = 0\<rparr>"

definition db_january :: database where
  "db_january =
     db_demo\<lparr>scores := [(mk_score 1 3 1 7 10)\<lparr>attempt_date := mk_time 2024 11 30 23 59 59\<rparr>,
                        (mk_score 2 3 1 8 10)\<lparr>attempt_date := mk_time 2024 12 1 0 0 0\<rparr>,
                        (mk_score 3 3 1 9 10)\<lparr>attempt_date := mk_time 2024 12 31 23 59 59\<rparr>,
                        (mk_score 4 3 1 6 10)\<lparr>attempt_date := mk_time 2025 1 1 0 0 0\<rparr>]\<rparr>"

section \<open>Theorems\<close>

text \<open>
  C1. The rank computed for an attempt is 1 plus the number of Score rows of the same
  quiz whose score is strictly greater, so two attempts on one quiz with equal scores
  have the same rank; with attempts scoring 10, 8, 8 on a quiz, the 10 has rank 1 and each
  8 has rank 2.
\<close>

theorem rank_for_attempt_strict_greater_count:
  "rank_for_attempt db a =
     1 + (\<Sum>s\<leftarrow>scores db. if quiz_id s = quiz_id a \<and> score s > score a then 1 else 0)
   \<and> (quiz_id a = quiz_id b \<and> score a = score b \<longrightarrow> rank_for_attempt db a = rank_for_attempt db b)
   \<and> map (rank_for_attempt db_rank) (filter (\<lambda>s. quiz_id s = 1) (scores db_rank)) = [1, 2, 2]"
proof -
  have len: "int (length (filter P xs)) = (\<Sum>s\<leftarrow>xs. if P s then 1 else 0)" for P and xs :: "score list"
    by (induction xs) simp_all
  have "rank_for_attempt db a =
     1 + int (length (filter (\<lambda>s. quiz_id s = quiz_id a \<and> score a < score s) (scores db)))"
    by (simp add: rank_for_attempt_def Let_def)
  then have "rank_for_attempt db a =
     1 + (\<Sum>s\<leftarrow>scores db. if quiz_id s = quiz_id a \<and> score s > score a then 1 else 0)"
    by (simp only: len)
  moreover have "quiz_id a = quiz_id b \<and> score a = score b \<longrightarrow> rank_for_attempt db a = rank_for_attempt db b"
    by (simp add: rank_for_attempt_def)
  moreover have "map (rank_for_attempt db_rank) (filter (\<lambda>s. quiz_id s = 1) (scores db_rank)) = [1, 2, 2]"
    by (simp add: rank_for_attempt_def db_rank_def mk_score_def)
  ultimately show ?thesis by blast
qed

theorem rank_for_attempt_strict_greater_count_witness:
  "quiz_id (mk_score 2 1 2 8 10) = quiz_id (mk_score 3 1 3 8 10)
   \<and> score (mk_score 2 1 2 8 10) = score (mk_score 3 1 3 8 10)
   \<and> rank_for_attempt db_rank (mk_score 2 1 2 8 10) = 2
   \<and> rank_for_attempt db_rank (mk_score 3 1 3 8 10) = 2
   \<and> rank_for_attempt db_rank (mk_score 1 1 1 10 10) = 1"
  using rank_for_attempt_strict_greater_count [of db_rank "mk_score 2 1 2 8 10" "mk_score 3 1 3 8 10"]
  by (simp add: rank_for_attempt_def db_rank_def mk_score_def)

subsection \<open>Percentages\<close>

lemma guarded_percentage_value:
  "guarded_percentage s n = Inr (if 0 < n then of_int s / of_int n * 100 else 0)"
  by (simp add: guarded_percentage_def truediv_def)

text \<open>
  C3. At each of its sites the percentage of a Score row is computed without raising:
  it is \<open>score / total_questions * 100\<close> when \<open>total_questions > 0\<close> and 0 otherwise, so
  the division is never reached with a zero divisor. The sites are the serialization of a
  Score, the rows of the per-user export, the per-attempt details of the monthly report
  and its average over the month's sums. No upper bound is applied: 15 out of 10 is 150.
\<close>

theorem percentage_guarded_at_every_site:
  "to_dict_percentage s
     = Inr (if 0 < total_questions s then of_int (score s) / of_int (total_questions s) * 100 else 0)
   \<and> (\<exists>d. Score_to_dict s = Inr d
          \<and> sd_percentage d
              = (if 0 < total_questions s then of_int (score s) / of_int (total_questions s) * 100
                 else 0))
   \<and> export_percentage s
     = Inr (if 0 < total_questions s then of_int (score s) / of_int (total_questions s) * 100 else 0)
   \<and> (\<forall>r. export_row db s = Inr r \<longrightarrow>
          r ! 8 = PercentCell (if 0 < total_questions s
                               then of_int (score s) / of_int (total_questions s) * 100 else 0))
   \<and> report_percentage s
     = Inr (if 0 < total_questions s then of_int (score s) / of_int (total_questions s) * 100 else 0)
   \<and> (\<forall>d. attempt_detail_of db s = Inr d \<longrightarrow>
          ad_percentage d
            = (if 0 < total_questions s then of_int (score s) / of_int (total_questions s) * 100
               else 0))
   \<and> avg_percentage attempts
     = Inr (if 0 < sum_list (map total_questions attempts)
            then of_int (sum_list (map score attempts))
                 / of_int (sum_list (map total_questions attempts)) * 100
            else 0)
   \<and> export_percentage (mk_score 1 3 1 15 10) = Inr 150"
proof -
  have 1: "to_dict_percentage s
     = Inr (if 0 < total_questions s then of_int (score s) / of_int (total_questions s) * 100 else 0)"
    by (simp add: to_dict_percentage_def guarded_percentage_value)
  have 2: "\<exists>d. Score_to_dict s = Inr d
          \<and> sd_percentage d
              = (if 0 < total_questions s then of_int (score s) / of_int (total_questions s) * 100
                 else 0)"
    by (simp add: Score_to_dict_def to_dict_percentage_def guarded_percentage_value)
  have 3: "export_percentage s
     = Inr (if 0 < total_questions s then of_int (score s) / of_int (total_questions s) * 100 else 0)"
    by (simp add: export_percentage_def guarded_percentage_value)
  have 4: "\<forall>r. export_row db s = Inr r \<longrightarrow>
          r ! 8 = PercentCell (if 0 < total_questions s
                               then of_int (score s) / of_int (total_questions s) * 100 else 0)"
    by (auto simp add: export_row_def export_percentage_def guarded_percentage_value
             split: option.splits)
  have 5: "report_percentage s
     = Inr (if 0 < total_questions s then of_int (score s) / of_int (total_questions s) * 100 else 0)"
    by (simp add: report_percentage_def guarded_percentage_value)
  have 6: "\<forall>d. attempt_detail_of db s = Inr d \<longrightarrow>
          ad_percentage d
            = (if 0 < total_questions s then of_int (score s) / of_int (total_questions s) * 100
               else 0)"
    by (auto simp add: attempt_detail_of_def report_percentage_def guarded_percentage_value
             split: option.splits)
  have 7: "avg_percentage attempts
     = Inr (if 0 < sum_list (map total_questions attempts)
            then of_int (sum_list (map score attempts))
                 / of_int (sum_list (map total_questions attempts)) * 100
            else 0)"
    by (simp add: avg_percentage_def guarded_percentage_value Let_def)
  have 8: "export_percentage (mk_score 1 3 1 15 10) = Inr 150"
    by (simp add: export_percentage_def guarded_percentage_value mk_score_def)
  from 1 2 3 4 5 6 7 8 show ?thesis by blast
qed

theorem percentage_guarded_at_every_site_witness:
  "export_row db_demo (mk_score 1 3 1 15 10)
     = Inr [IntCell 3, StrCell ''Sets'', StrCell ''Maths'', StrCell ''Algebra'',
            StrCell ''2024-05-17 09:30:00'', IntCell 60, IntCell 15, IntCell 10,
            PercentCell 150, PassFailCell 150]
   \<and> to_dict_percentage (mk_score 5 3 1 4 0) = Inr 0
   \<and> avg_percentage [mk_score 1 3 1 15 10, mk_score 5 3 1 4 0] = Inr 190"
proof -
  have row: "export_row db_demo (mk_score 1 3 1 15 10)
     = Inr [IntCell 3, StrCell ''Sets'', StrCell ''Maths'', StrCell ''Algebra'',
            StrCell ''2024-05-17 09:30:00'', IntCell 60, IntCell 15, IntCell 10,
            PercentCell 150, PassFailCell 150]"
    by code_simp
  have "to_dict_percentage (mk_score 5 3 1 4 0) = Inr 0"
    using percentage_guarded_at_every_site [of "mk_score 5 3 1 4 0"]
    by (simp add: mk_score_def)
  moreover have "avg_percentage [mk_score 1 3 1 15 10, mk_score 5 3 1 4 0] = Inr 190"
    using percentage_guarded_at_every_site
            [of "mk_score 5 3 1 4 0" db_demo "[mk_score 1 3 1 15 10, mk_score 5 3 1 4 0]"]
    by (simp add: mk_score_def)
  ultimately show ?thesis using row by simp
qed

subsection \<open>The webhook channel\<close>

text \<open>
  C5. \<open>send_gchat_webhook\<close> returns False with no call of the transport when the URL is
  missing or empty. Otherwise it calls the transport once and returns True exactly when
  the response has status 200; when the transport raises, the exception is logged and
  the result is False. The function has no other outcome: it never raises.
\<close>

theorem send_gchat_webhook_never_raises:
  "(url = None \<or> url = Some [] \<longrightarrow> send_gchat_webhook e url m t s = (False, []))
   \<and> (\<forall>u. url = Some u \<and> u \<noteq> [] \<longrightarrow>
        (fst (send_gchat_webhook e url m t s)
           \<longleftrightarrow> requests_post e u (webhook_payload m t s) = Inr 200)
      \<and> (\<forall>st. requests_post e u (webhook_payload m t s) = Inr st \<longrightarrow>
             snd (send_gchat_webhook e url m t s) = [HttpPost u (webhook_payload m t s)])
      \<and> (\<forall>ex. requests_post e u (webhook_payload m t s) = Inl ex \<longrightarrow>
             send_gchat_webhook e url m t s
               = (False, [HttpPost u (webhook_payload m t s),
                          LogError (''Google Chat webhook error: '' @ str_exn ex)])))"
  by (auto simp add: send_gchat_webhook_def Let_def split: sum.splits)

theorem send_gchat_webhook_never_raises_witness:
  "send_gchat_webhook (env_demo 18) (Some []) ''hello'' None None = (False, [])
   \<and> fst (send_gchat_webhook (env_demo 18) (Some ''https://chat.example/hook'') ''hello'' None None)
   \<and> \<not> fst (send_gchat_webhook env_not_found (Some ''https://chat.example/hook'') ''hello'' None None)
   \<and> send_gchat_webhook env_unreachable (Some ''https://chat.example/hook'') ''hello'' None None
       = (False, [HttpPost ''https://chat.example/hook'' (Text ''hello''),
                  LogError ''Google Chat webhook error: connection refused''])"
proof -
  have p: "webhook_payload ''hello'' None None = Text ''hello''"
    by (simp add: webhook_payload_def)
  have 1: "send_gchat_webhook (env_demo 18) (Some []) ''hello'' None None = (False, [])"
    using send_gchat_webhook_never_raises [of "Some []" "env_demo 18" "''hello''" None None]
    by simp
  have 2: "fst (send_gchat_webhook (env_demo 18) (Some ''https://chat.example/hook'') ''hello'' None None)"
    using send_gchat_webhook_never_raises
            [of "Some ''https://chat.example/hook''" "env_demo 18" "''hello''" None None]
    by (simp add: env_demo_def)
  have 3: "\<not> fst (send_gchat_webhook env_not_found (Some ''https://chat.example/hook'') ''hello'' None None)"
    using send_gchat_webhook_never_raises
            [of "Some ''https://chat.example/hook''" env_not_found "''hello''" None None]
    by (simp add: env_not_found_def env_demo_def)
  have 4: "send_gchat_webhook env_unreachable (Some ''https://chat.example/hook'') ''hello'' None None
       = (False, [HttpPost ''https://chat.example/hook'' (Text ''hello''),
                  LogError ''Google Chat webhook error: connection refused''])"
    using send_gchat_webhook_never_raises
            [of "Some ''https://chat.example/hook''" env_unreachable "''hello''" None None]
    by (simp add: env_unreachable_def env_demo_def p)
  from 1 2 3 4 show ?thesis by blast
qed

subsection \<open>Upcoming quizzes\<close>

lemma upcoming_quizzes_member:
  "q \<in> set (upcoming_quizzes db td) \<Longrightarrow>
     q \<in> set (quizzes db) \<and> is_active q \<and> date_key td \<le> date_key (date_of_quiz q)"
  unfolding upcoming_quizzes_def by (auto dest: in_set_takeD)

text \<open>
  A stable sort by one key of a list that is in ascending order of a second key gives the
  order by the first key and then the second.
\<close>

lemma insort_key_then_second:
  fixes f :: "'a \<Rightarrow> 'b::linorder" and g :: "'a \<Rightarrow> 'c::linorder"
  assumes "sorted (map (\<lambda>y. (f y, g y)) ys)" and "\<forall>y \<in> set ys. g x \<le> g y"
  shows "sorted (map (\<lambda>y. (f y, g y)) (insort_key f x ys))"
  using assms
proof (induction ys)
  case Nil
  then show ?case by simp
next
  case (Cons y ys)
  show ?case
  proof (cases "f x \<le> f y")
    case True
    from Cons.prems(1) have "\<forall>z \<in> set ys. f y \<le> f z"
      by auto
    with True Cons.prems show ?thesis
      by (auto simp add: less_le)
  next
    case False
    from Cons.prems have "sorted (map (\<lambda>y. (f y, g y)) (insort_key f x ys))"
      by (intro Cons.IH) auto
    with False Cons.prems(1) show ?thesis
      by (auto simp add: set_insort_key)
  qed
qed

lemma sort_key_then_second:
  fixes f :: "'a \<Rightarrow> 'b::linorder" and g :: "'a \<Rightarrow> 'c::linorder"
  assumes "sorted (map g xs)"
  shows "sorted (map (\<lambda>y. (f y, g y)) (sort_key f xs))"
  using assms
proof (induction xs)
  case Nil
  then show ?case by simp
next
  case (Cons x xs)
  then have "sorted (map (\<lambda>y. (f y, g y)) (sort_key f xs))"
    and "\<forall>y \<in> set (sort_key f xs). g x \<le> g y"
    by auto
  then show ?case
    by (simp add: insort_key_then_second)
qed

text \<open>
  C6. On a store whose quiz table is enumerated by ascending identifier, as the
  configured engine does, the candidate quizzes of the daily reminder job are rows of the
  quiz table with \<open>is_active\<close> true and \<open>date_of_quiz\<close> not before today, there are at
  most 5 of them, and they are in ascending order of date with quizzes of equal date in
  ascending order of identifier.
\<close>

theorem upcoming_quizzes_by_date_then_identifier:
  assumes "sorted (map quiz_id_of (quizzes db))"
  shows "(\<forall>q \<in> set (upcoming_quizzes db td).
            q \<in> set (quizzes db) \<and> is_active q \<and> date_key td \<le> date_key (date_of_quiz q))
         \<and> length (upcoming_quizzes db td) \<le> 5
         \<and> sorted (map (\<lambda>q. date_key (date_of_quiz q)) (upcoming_quizzes db td))
         \<and> sorted (map (\<lambda>q. (date_key (date_of_quiz q), quiz_id_of q))
                       (upcoming_quizzes db td))"
proof -
  let ?P = "\<lambda>q. is_active q \<and> date_key td \<le> date_key (date_of_quiz q)"
  let ?k = "\<lambda>q. date_key (date_of_quiz q)"
  have len: "length (upcoming_quizzes db td) \<le> 5"
    by (simp add: upcoming_quizzes_def)
  have by_date: "sorted (map ?k (upcoming_quizzes db td))"
    unfolding upcoming_quizzes_def take_map [symmetric]
    by (rule sorted_wrt_take) (rule sorted_sort_key)
  from assms have "sorted (map quiz_id_of (filter ?P (quizzes db)))"
    by (rule sorted_filter)
  then have "sorted (map (\<lambda>q. (?k q, quiz_id_of q)) (sort_key ?k (filter ?P (quizzes db))))"
    by (rule sort_key_then_second)
  then have "sorted (take 5 (map (\<lambda>q. (?k q, quiz_id_of q))
                                (sort_key ?k (filter ?P (quizzes db)))))"
    by (rule sorted_wrt_take)
  then have by_both: "sorted (map (\<lambda>q. (?k q, quiz_id_of q)) (upcoming_quizzes db td))"
    by (simp add: upcoming_quizzes_def take_map)
  from len by_date by_both upcoming_quizzes_member [of _ db td] show ?thesis
    by blast
qed

theorem upcoming_quizzes_by_date_then_identifier_witness:
  "sorted (map quiz_id_of (quizzes db_same_day))
   \<and> map quiz_id_of (upcoming_quizzes db_same_day (mk_date 2024 6 1)) = [3, 1, 2]
   \<and> map (\<lambda>q. day (date_of_quiz q)) (upcoming_quizzes db_same_day (mk_date 2024 6 1))
       = [5, 10, 10]
   \<and> sorted (map (\<lambda>q. (date_key (date_of_quiz q), quiz_id_of q))
                 (upcoming_quizzes db_same_day (mk_date 2024 6 1)))
   \<and> sorted (map quiz_id_of (quizzes db_demo))
   \<and> map quiz_id_of (upcoming_quizzes db_demo (mk_date 2024 6 1)) = [2, 1]"
proof -
  have h: "sorted (map quiz_id_of (quizzes db_same_day))"
    by (simp add: db_same_day_def mk_quiz_def)
  have h': "sorted (map quiz_id_of (quizzes db_demo))"
    by (simp add: db_demo_def mk_quiz_def)
  have a: "map quiz_id_of (upcoming_quizzes db_same_day (mk_date 2024 6 1)) = [3, 1, 2]"
    by code_simp
  have b: "map (\<lambda>q. day (date_of_quiz q)) (upcoming_quizzes db_same_day (mk_date 2024 6 1))
             = [5, 10, 10]"
    by code_simp
  have c: "map quiz_id_of (upcoming_quizzes db_demo (mk_date 2024 6 1)) = [2, 1]"
    by code_simp
  from upcoming_quizzes_by_date_then_identifier [OF h, of "mk_date 2024 6 1"]
  have "sorted (map (\<lambda>q. (date_key (date_of_quiz q), quiz_id_of q))
                 (upcoming_quizzes db_same_day (mk_date 2024 6 1)))"
    by blast
  with h h' a b c show ?thesis by blast
qed

subsection \<open>The month of the report\<close>

lemma window_iff:
  assumes td: "1 \<le> month td" "month td \<le> 12" and t: "valid_datetime t"
  shows "(datetime_key (midnight (last_month_of td)) \<le> datetime_key t
          \<and> datetime_key t < datetime_key (midnight (first_day_of td)))
         \<longleftrightarrow> spec_in_previous_month td t"
  using td t
  unfolding datetime_key_def midnight_def last_month_of_def first_day_of_def
    spec_in_previous_month_def month_index_def valid_datetime_def
  by (cases "month td = 1") (simp_all, linarith+)

text \<open>
  C4. For a current date \<open>td\<close> (its month between 1 and 12) and stored timestamps with
  fields in range, the attempts that the monthly report job selects for a user are exactly
  that user's Score rows whose \<open>attempt_date\<close> lies in the calendar month immediately
  preceding that of \<open>td\<close>, that is in [first day of the previous month, first day of the
  current month); in January the previous month is December of the previous year.
\<close>

theorem monthly_attempts_previous_calendar_month:
  assumes "1 \<le> month td" and "month td \<le> 12"
    and "\<forall>s \<in> set (scores db). valid_datetime (attempt_date s)"
  shows "monthly_attempts db u (last_month_of td) (first_day_of td)
           = filter (\<lambda>s. user_id s = user_id_of u \<and> spec_in_previous_month td (attempt_date s))
                    (scores db)
         \<and> month_index (last_month_of td) + 1 = month_index td
         \<and> day (last_month_of td) = 1 \<and> 1 \<le> month (last_month_of td)
         \<and> month (last_month_of td) \<le> 12
         \<and> first_day_of td = \<lparr>year = year td, month = month td, day = 1\<rparr>
         \<and> (month td = 1 \<longrightarrow> last_month_of td = \<lparr>year = year td - 1, month = 12, day = 1\<rparr>)"
proof -
  have "monthly_attempts db u (last_month_of td) (first_day_of td)
           = filter (\<lambda>s. user_id s = user_id_of u \<and> spec_in_previous_month td (attempt_date s))
                    (scores db)"
    unfolding monthly_attempts_def
    by (rule filter_cong) (use assms window_iff in auto)
  moreover have "month_index (last_month_of td) + 1 = month_index td"
    by (simp add: last_month_of_def month_index_def)
  moreover have "day (last_month_of td) = 1 \<and> 1 \<le> month (last_month_of td)
                 \<and> month (last_month_of td) \<le> 12"
    using assms(1,2) by (simp add: last_month_of_def)
  ultimately show ?thesis by (simp add: last_month_of_def first_day_of_def)
qed

theorem monthly_attempts_previous_calendar_month_witness:
  "1 \<le> month (mk_date 2025 1 1) \<and> month (mk_date 2025 1 1) \<le> 12
   \<and> list_all (\<lambda>s. valid_datetime (attempt_date s)) (scores db_january)
   \<and> last_month_of (mk_date 2025 1 1) = mk_date 2024 12 1
   \<and> map score_id_of (filter (\<lambda>s. user_id s = user_id_of ann
                                   \<and> spec_in_previous_month (mk_date 2025 1 1) (attempt_date s))
                              (scores db_january)) = [2, 3]
   \<and> map score_id_of (monthly_attempts db_january ann (last_month_of (mk_date 2025 1 1))
                         (first_day_of (mk_date 2025 1 1))) = [2, 3]"
proof -
  have m: "1 \<le> month (mk_date 2025 1 1)" "month (mk_date 2025 1 1) \<le> 12"
    by (simp_all add: mk_date_def)
  have v: "\<forall>s \<in> set (scores db_january). valid_datetime (attempt_date s)"
    by code_simp
  have l: "last_month_of (mk_date 2025 1 1) = mk_date 2024 12 1"
    by (simp add: last_month_of_def mk_date_def)
  have f: "map score_id_of (filter (\<lambda>s. user_id s = user_id_of ann
                                   \<and> spec_in_previous_month (mk_date 2025 1 1) (attempt_date s))
                              (scores db_january)) = [2, 3]"
    by code_simp
  from monthly_attempts_previous_calendar_month [OF m v, of ann]
  have e: "monthly_attempts db_january ann (last_month_of (mk_date 2025 1 1))
             (first_day_of (mk_date 2025 1 1))
           = filter (\<lambda>s. user_id s = user_id_of ann
                          \<and> spec_in_previous_month (mk_date 2025 1 1) (attempt_date s))
                    (scores db_january)"
    by blast
  have "map score_id_of (monthly_attempts db_january ann (last_month_of (mk_date 2025 1 1))
                         (first_day_of (mk_date 2025 1 1))) = [2, 3]"
    by (simp only: e f)
  moreover from v have "list_all (\<lambda>s. valid_datetime (attempt_date s)) (scores db_january)"
    by (simp add: list_all_iff)
  ultimately show ?thesis using m l f by blast
qed

subsection \<open>Application start-up\<close>

lemma create_app_tables:
  "subjects (create_app db) = subjects db"
  "chapters (create_app db) = chapters db"
  "quizzes (create_app db) = quizzes db"
  "scores (create_app db) = scores db"
  "user_preferences (create_app db) = user_preferences db"
  by (simp_all add: create_app_def split: option.splits)

lemma create_app_admin_present:
  assumes "\<exists>u \<in> set (users db). username u = ADMIN_USERNAME"
  shows "create_app db = db"
  using assms by (auto simp add: create_app_def find_None_iff split: option.splits)

lemma upcoming_quizzes_create_app:
  "upcoming_quizzes (create_app db) td = upcoming_quizzes db td"
  by (simp add: upcoming_quizzes_def create_app_tables)

lemma inactive_users_create_app:
  "inactive_users (create_app db) r = inactive_users db r"
  by (simp add: inactive_users_def create_app_def split: option.splits)

lemma report_users_create_app:
  "report_users (create_app db) = report_users db"
  by (simp add: report_users_def create_app_def split: option.splits)

lemma remind_user_create_app:
  "remind_user e (create_app db) up k u = remind_user e db up k u"
  by (simp add: remind_user_def new_quizzes_def user_quiz_ids_def user_pref_of_def
        create_app_tables)

lemma remind_loop_create_app:
  "remind_loop e (create_app db) up k us n = remind_loop e db up k us n"
  by (induction us arbitrary: k n)
     (simp_all add: remind_user_create_app split: prod.splits sum.splits)

text \<open>The report of a user reads the quizzes, chapters, subjects and scores only.\<close>

lemma attempt_details_agree:
  assumes "quizzes db = quizzes db'" and "chapters db = chapters db'"
    and "subjects db = subjects db'"
  shows "attempt_details db as = attempt_details db' as"
proof -
  have g: "get_quiz db i = get_quiz db' i" "get_chapter db i = get_chapter db' i"
       "get_subject db i = get_subject db' i" for i
    using assms by (simp_all add: get_quiz_def get_chapter_def get_subject_def)
  have "attempt_detail_of db a = attempt_detail_of db' a" for a
    by (simp add: attempt_detail_of_def g cong: option.case_cong sum.case_cong)
  then show ?thesis by (induction as) (simp_all cong: sum.case_cong)
qed

lemma user_rankings_agree:
  assumes "quizzes db = quizzes db'" and "scores db = scores db'"
  shows "user_rankings db as acc = user_rankings db' as acc"
proof -
  have g: "get_quiz db i = get_quiz db' i" for i
    using assms by (simp add: get_quiz_def)
  have r: "rank_for_attempt db a = rank_for_attempt db' a" for a
    using assms by (simp add: rank_for_attempt_def)
  have t: "total_attempts_for_quiz db a = total_attempts_for_quiz db' a" for a
    using assms by (simp add: total_attempts_for_quiz_def)
  show ?thesis
    by (induction as arbitrary: acc) (simp_all add: g r t Let_def cong: option.case_cong)
qed

lemma report_user_agree:
  assumes q: "quizzes db = quizzes db'" and c: "chapters db = chapters db'"
    and s: "subjects db = subjects db'" and sc: "scores db = scores db'"
  shows "report_user e db lm fd u = report_user e db' lm fd u"
proof -
  have "monthly_attempts db u lm fd = monthly_attempts db' u lm fd"
    using sc by (simp add: monthly_attempts_def)
  then show ?thesis
    by (simp add: report_user_def Let_def attempt_details_agree [OF q c s]
          user_rankings_agree [OF q sc] cong: if_cong sum.case_cong)
qed

lemma report_loop_agree:
  assumes "quizzes db = quizzes db'" and "chapters db = chapters db'"
    and "subjects db = subjects db'" and "scores db = scores db'"
  shows "report_loop e db lm fd us = report_loop e db' lm fd us"
  by (induction us)
     (simp_all add: report_user_agree [OF assms] split: prod.splits sum.splits)

lemma report_loop_create_app:
  "report_loop e (create_app db) lm fd us = report_loop e db lm fd us"
  by (rule report_loop_agree) (simp_all add: create_app_tables)

text \<open>
  The administrator's account has the role \<open>admin\<close>, which neither scheduled task
  selects: both tasks run as on the store they were given.
\<close>

lemma send_daily_reminders_run:
  "send_daily_reminders e db =
     (case remind_loop e db (upcoming_quizzes db (today e)) 0
             (inactive_users db (minus_days (now e) 3)) 0 of
        (Inr reminders_sent, evs) \<Rightarrow>
          (Inr (''Daily reminders sent to '' @ str_int reminders_sent @ '' users''), evs)
      | (Inl ex, evs) \<Rightarrow> (Inl outside_app_context, evs))"
  by (simp add: send_daily_reminders_def Let_def upcoming_quizzes_create_app
        inactive_users_create_app remind_loop_create_app split: prod.splits sum.splits)

lemma send_monthly_reports_run:
  "send_monthly_reports e db =
     (case report_loop e db (last_month_of (today e)) (first_day_of (today e))
             (report_users db) of
        (Inr x, evs) \<Rightarrow>
          (Inr (''Monthly reports sent to '' @ str_int (int (length (report_users db)))
                @ '' users''), evs)
      | (Inl ex, evs) \<Rightarrow> (Inl outside_app_context, evs))"
  by (simp add: send_monthly_reports_def Let_def report_users_create_app
        report_loop_create_app split: prod.splits sum.splits)

subsection \<open>Export of a user's attempts\<close>

text \<open>
  C7. When no User row has the given id in the store that the lookup reads (the store
  after \<open>create_app\<close>, which is the given store when the administrator's account exists),
  \<open>export_user_attempts_csv\<close> fails with the error "User with ID <id> not found", the
  task's state is FAILURE with that message, and the files are as before. In general a
  failed export leaves the files unchanged and puts the error message in the task's state,
  and an export that writes its file has serialized every row of the user before: the file
  holds the header and all of these rows.
\<close>

theorem export_unknown_user_fails_without_file:
  "(uid \<notin> user_id_of ` set (users (create_app db)) \<longrightarrow>
      export_user_attempts_csv e db w uid
        = (Inl (ValueError (''User with ID '' @ str_int uid @ '' not found'')),
           w\<lparr>task_state := Some (''FAILURE'', ''User with ID '' @ str_int uid @ '' not found'')\<rparr>))
   \<and> ((\<exists>u \<in> set (users db). username u = ADMIN_USERNAME)
        \<and> uid \<notin> user_id_of ` set (users db) \<longrightarrow>
      export_user_attempts_csv e db w uid
        = (Inl (ValueError (''User with ID '' @ str_int uid @ '' not found'')),
           w\<lparr>task_state := Some (''FAILURE'', ''User with ID '' @ str_int uid @ '' not found'')\<rparr>))
   \<and> (\<forall>ex. fst (export_user_attempts_csv e db w uid) = Inl ex \<longrightarrow>
         files (snd (export_user_attempts_csv e db w uid)) = files w
         \<and> task_state (snd (export_user_attempts_csv e db w uid)) = Some (''FAILURE'', str_exn ex))
   \<and> (\<forall>d. fst (export_user_attempts_csv e db w uid) = Inr d \<longrightarrow>
         (\<exists>rs. export_rows (create_app db) (filter (\<lambda>s. user_id s = uid) (scores db)) = Inr rs
               \<and> length rs = length (filter (\<lambda>s. user_id s = uid) (scores db))
               \<and> files (snd (export_user_attempts_csv e db w uid))
                   = dict_set (filepath d) (attempts_header # rs) (files w)))"
proof -
  have len: "export_rows d as = Inr rs \<Longrightarrow> length rs = length as" for d as rs
    by (induction as arbitrary: rs) (auto split: sum.splits)
  have a: "uid \<notin> user_id_of ` set (users d) \<Longrightarrow> get_user d uid = None" for d
    by (auto simp add: get_user_def find_None_iff)
  have 1: "uid \<notin> user_id_of ` set (users (create_app db)) \<longrightarrow>
      export_user_attempts_csv e db w uid
        = (Inl (ValueError (''User with ID '' @ str_int uid @ '' not found'')),
           w\<lparr>task_state := Some (''FAILURE'', ''User with ID '' @ str_int uid @ '' not found'')\<rparr>)"
    using a [of "create_app db"] by (simp add: export_user_attempts_csv_def csv_content_def)
  have 2: "(\<exists>u \<in> set (users db). username u = ADMIN_USERNAME)
        \<and> uid \<notin> user_id_of ` set (users db) \<longrightarrow>
      export_user_attempts_csv e db w uid
        = (Inl (ValueError (''User with ID '' @ str_int uid @ '' not found'')),
           w\<lparr>task_state := Some (''FAILURE'', ''User with ID '' @ str_int uid @ '' not found'')\<rparr>)"
    using 1 create_app_admin_present [of db] by auto
  have 3: "\<forall>ex. fst (export_user_attempts_csv e db w uid) = Inl ex \<longrightarrow>
         files (snd (export_user_attempts_csv e db w uid)) = files w
         \<and> task_state (snd (export_user_attempts_csv e db w uid)) = Some (''FAILURE'', str_exn ex)"
    by (auto simp add: export_user_attempts_csv_def Let_def split: sum.splits)
  have 4: "\<forall>d. fst (export_user_attempts_csv e db w uid) = Inr d \<longrightarrow>
         (\<exists>rs. export_rows (create_app db) (filter (\<lambda>s. user_id s = uid) (scores db)) = Inr rs
               \<and> length rs = length (filter (\<lambda>s. user_id s = uid) (scores db))
               \<and> files (snd (export_user_attempts_csv e db w uid))
                   = dict_set (filepath d) (attempts_header # rs) (files w))"
    by (auto simp add: export_user_attempts_csv_def csv_content_def Let_def len
             create_app_tables split: sum.splits option.splits)
  from 1 2 3 4 show ?thesis by blast
qed

text \<open>
  In the example store the administrator's account exists and no user has the id 7. In
  the store of Ann and Bob alone the account gets the id 3 at start-up, so an export for
  the id 3 finds it and writes a file with the header only, while an export for the id 7
  fails.
\<close>

theorem export_unknown_user_fails_without_file_witness:
  "7 \<notin> user_id_of ` set (users db_demo)
   \<and> cy \<in> set (users db_demo) \<and> username cy = ADMIN_USERNAME
   \<and> export_user_attempts_csv (env_demo 8) db_demo empty_world 7
       = (Inl (ValueError ''User with ID 7 not found''),
          \<lparr>files = [], task_state = Some (''FAILURE'', ''User with ID 7 not found'')\<rparr>)
   \<and> map fst (files (snd (export_user_attempts_csv (env_demo 8) db_demo empty_world 1)))
       = [''/tmp/user_1_attempts_20240601_080000.csv'']
   \<and> map user_id_of (users (create_app db_no_admin)) = [1, 2, 3]
   \<and> 7 \<notin> user_id_of ` set (users (create_app db_no_admin))
   \<and> export_user_attempts_csv (env_demo 8) db_no_admin empty_world 7
       = (Inl (ValueError ''User with ID 7 not found''),
          \<lparr>files = [], task_state = Some (''FAILURE'', ''User with ID 7 not found'')\<rparr>)
   \<and> files (snd (export_user_attempts_csv (env_demo 8) db_no_admin empty_world 3))
       = [(''/tmp/user_3_attempts_20240601_080000.csv'', [attempts_header])]"
proof -
  have h: "7 \<notin> user_id_of ` set (users db_demo)"
    by (simp add: db_demo_def ann_def bob_def cy_def mk_user_def)
  have c: "cy \<in> set (users db_demo)" "username cy = ADMIN_USERNAME"
    by (simp_all add: db_demo_def cy_def mk_user_def ADMIN_USERNAME_def)
  have s: "''User with ID '' @ str_int 7 @ '' not found'' = ''User with ID 7 not found''"
    by code_simp
  have ok: "map fst (files (snd (export_user_attempts_csv (env_demo 8) db_demo empty_world 1)))
       = [''/tmp/user_1_attempts_20240601_080000.csv'']"
    by code_simp
  have ids: "map user_id_of (users (create_app db_no_admin)) = [1, 2, 3]"
    by code_simp
  then have h': "7 \<notin> user_id_of ` set (users (create_app db_no_admin))"
    by (simp flip: set_map)
  have seeded: "files (snd (export_user_attempts_csv (env_demo 8) db_no_admin empty_world 3))
       = [(''/tmp/user_3_attempts_20240601_080000.csv'', [attempts_header])]"
    by code_simp
  from export_unknown_user_fails_without_file [of 7 db_demo "env_demo 8" empty_world] h c
  have "export_user_attempts_csv (env_demo 8) db_demo empty_world 7
        = (Inl (ValueError (''User with ID '' @ str_int 7 @ '' not found'')),
           empty_world\<lparr>task_state := Some (''FAILURE'', ''User with ID '' @ str_int 7 @ '' not found'')\<rparr>)"
    by blast
  then have 1: "export_user_attempts_csv (env_demo 8) db_demo empty_world 7
       = (Inl (ValueError ''User with ID 7 not found''),
          \<lparr>files = [], task_state = Some (''FAILURE'', ''User with ID 7 not found'')\<rparr>)"
    by (simp only: s) (simp add: empty_world_def)
  from export_unknown_user_fails_without_file [of 7 db_no_admin "env_demo 8" empty_world] h'
  have "export_user_attempts_csv (env_demo 8) db_no_admin empty_world 7
        = (Inl (ValueError (''User with ID '' @ str_int 7 @ '' not found'')),
           empty_world\<lparr>task_state := Some (''FAILURE'', ''User with ID '' @ str_int 7 @ '' not found'')\<rparr>)"
    by blast
  then have 2: "export_user_attempts_csv (env_demo 8) db_no_admin empty_world 7
       = (Inl (ValueError ''User with ID 7 not found''),
          \<lparr>files = [], task_state = Some (''FAILURE'', ''User with ID 7 not found'')\<rparr>)"
    by (simp only: s) (simp add: empty_world_def)
  from h c 1 ok ids h' 2 seeded show ?thesis by blast
qed

subsection \<open>Monthly reports\<close>

lemma report_user_mail:
  "MailSend m \<in> set (snd (report_user e db lm fd u)) \<Longrightarrow>
     monthly_attempts db u lm fd \<noteq> [] \<and> msg_recipients m = [username u]"
  by (auto simp add: report_user_def Let_def split: if_splits sum.splits option.splits)

lemma report_loop_mail:
  "MailSend m \<in> set (snd (report_loop e db lm fd us)) \<Longrightarrow>
     \<exists>u \<in> set us. monthly_attempts db u lm fd \<noteq> [] \<and> msg_recipients m = [username u]"
proof (induction us)
  case Nil
  then show ?case by simp
next
  case (Cons u us)
  obtain r evs where ru: "report_user e db lm fd u = (r, evs)"
    by (cases "report_user e db lm fd u")
  obtain r' evs' where rl: "report_loop e db lm fd us = (r', evs')"
    by (cases "report_loop e db lm fd us")
  from Cons.prems ru rl have "MailSend m \<in> set evs \<or> MailSend m \<in> set evs'"
    by (cases r) auto
  then show ?case
  proof
    assume "MailSend m \<in> set evs"
    with ru report_user_mail [of m e db lm fd u] show ?thesis by simp
  next
    assume "MailSend m \<in> set evs'"
    with rl Cons.IH show ?thesis by simp
  qed
qed

lemma report_user_ok:
  "report_user e db lm fd u = (Inr x, evs) \<Longrightarrow>
     length evs = (if monthly_attempts db u lm fd = [] then 0 else 1)"
  by (auto simp add: report_user_def Let_def split: if_splits sum.splits option.splits)

lemma report_loop_ok:
  "report_loop e db lm fd us = (Inr x, evs) \<Longrightarrow>
     length evs = length (filter (\<lambda>u. monthly_attempts db u lm fd \<noteq> []) us)"
proof (induction us arbitrary: evs x)
  case Nil
  then show ?case by simp
next
  case (Cons u us)
  obtain r evs1 where ru: "report_user e db lm fd u = (r, evs1)"
    by (cases "report_user e db lm fd u")
  obtain r' evs2 where rl: "report_loop e db lm fd us = (r', evs2)"
    by (cases "report_loop e db lm fd us")
  from Cons.prems ru rl obtain y where r: "r = Inr y" and r': "r' = Inr x"
    and evs: "evs = evs1 @ evs2"
    by (cases r) auto
  from ru r have "length evs1 = (if monthly_attempts db u lm fd = [] then 0 else 1)"
    by (simp add: report_user_ok)
  moreover from rl r' have "length evs2 = length (filter (\<lambda>u. monthly_attempts db u lm fd \<noteq> []) us)"
    by (simp add: Cons.IH)
  ultimately show ?case using evs by simp
qed

text \<open>
  C8. In the monthly report job a user with no attempts in the prior month passes the
  loop body with no event at all, so every mail of a run goes to a user of role \<open>user\<close>
  who has such attempts. A run either ends in an exception or returns the text with the
  number of all users of role \<open>user\<close>, while the mails it has sent are as many as the
  users among them with attempts in the prior month.
\<close>

theorem monthly_reports_count_considered_users:
  "(monthly_attempts db u (last_month_of (today e)) (first_day_of (today e)) = [] \<longrightarrow>
      report_user e db (last_month_of (today e)) (first_day_of (today e)) u = (Inr (), []))
   \<and> (\<forall>m. MailSend m \<in> set (snd (send_monthly_reports e db)) \<longrightarrow>
        (\<exists>u \<in> set (users db). role u = ''user''
            \<and> monthly_attempts db u (last_month_of (today e)) (first_day_of (today e)) \<noteq> []
            \<and> msg_recipients m = [username u]))
   \<and> ((\<exists>ex. fst (send_monthly_reports e db) = Inl ex)
       \<or> fst (send_monthly_reports e db)
           = Inr (''Monthly reports sent to ''
                  @ str_int (int (length (filter (\<lambda>u. role u = ''user'') (users db))))
                  @ '' users'')
         \<and> length (snd (send_monthly_reports e db))
           = length (filter (\<lambda>u. role u = ''user''
                       \<and> monthly_attempts db u (last_month_of (today e)) (first_day_of (today e)) \<noteq> [])
                     (users db)))"
proof -
  let ?lm = "last_month_of (today e)" and ?fd = "first_day_of (today e)"
  obtain r evs where rl: "report_loop e db ?lm ?fd (report_users db) = (r, evs)"
    by (cases "report_loop e db ?lm ?fd (report_users db)")
  have 1: "monthly_attempts db u ?lm ?fd = [] \<longrightarrow> report_user e db ?lm ?fd u = (Inr (), [])"
    by (simp add: report_user_def)
  have 2: "\<forall>m. MailSend m \<in> set (snd (send_monthly_reports e db)) \<longrightarrow>
        (\<exists>u \<in> set (users db). role u = ''user'' \<and> monthly_attempts db u ?lm ?fd \<noteq> []
            \<and> msg_recipients m = [username u])"
  proof (intro allI impI)
    fix m assume "MailSend m \<in> set (snd (send_monthly_reports e db))"
    with rl have "MailSend m \<in> set evs"
      by (cases r) (auto simp add: send_monthly_reports_run)
    with rl report_loop_mail [of m e db ?lm ?fd "report_users db"]
    show "\<exists>u \<in> set (users db). role u = ''user'' \<and> monthly_attempts db u ?lm ?fd \<noteq> []
            \<and> msg_recipients m = [username u]"
      by (auto simp add: report_users_def)
  qed
  have 3: "(\<exists>ex. fst (send_monthly_reports e db) = Inl ex)
       \<or> fst (send_monthly_reports e db)
           = Inr (''Monthly reports sent to ''
                  @ str_int (int (length (filter (\<lambda>u. role u = ''user'') (users db))))
                  @ '' users'')
         \<and> length (snd (send_monthly_reports e db))
           = length (filter (\<lambda>u. role u = ''user'' \<and> monthly_attempts db u ?lm ?fd \<noteq> [])
                     (users db))"
  proof (cases r)
    case (Inl ex)
    with rl show ?thesis by (simp add: send_monthly_reports_run)
  next
    case (Inr x)
    with rl report_loop_ok [of e db ?lm ?fd "report_users db" x evs]
    show ?thesis by (simp add: send_monthly_reports_run report_users_def)
  qed
  from 1 2 3 show ?thesis by blast
qed

theorem monthly_reports_count_considered_users_witness:
  "monthly_attempts db_demo bob (last_month_of (today (env_demo 8)))
      (first_day_of (today (env_demo 8))) = []
   \<and> report_user (env_demo 8) db_demo (last_month_of (today (env_demo 8)))
        (first_day_of (today (env_demo 8))) bob = (Inr (), [])
   \<and> fst (send_monthly_reports (env_demo 8) db_demo) = Inr ''Monthly reports sent to 2 users''
   \<and> map (\<lambda>ev. case ev of MailSend m \<Rightarrow> msg_recipients m | _ \<Rightarrow> [])
         (snd (send_monthly_reports (env_demo 8) db_demo)) = [[''ann@example.com'']]"
proof -
  have h: "monthly_attempts db_demo bob (last_month_of (today (env_demo 8)))
             (first_day_of (today (env_demo 8))) = []"
    by code_simp
  have r: "fst (send_monthly_reports (env_demo 8) db_demo) = Inr ''Monthly reports sent to 2 users''"
    by code_simp
  have m: "map (\<lambda>ev. case ev of MailSend m \<Rightarrow> msg_recipients m | _ \<Rightarrow> [])
         (snd (send_monthly_reports (env_demo 8) db_demo)) = [[''ann@example.com'']]"
    by code_simp
  from monthly_reports_count_considered_users [of db_demo bob "env_demo 8"] h
  have "report_user (env_demo 8) db_demo (last_month_of (today (env_demo 8)))
        (first_day_of (today (env_demo 8))) bob = (Inr (), [])"
    by blast
  with h r m show ?thesis by blast
qed

subsection \<open>Daily reminders\<close>

text \<open>
  C2. In the daily reminder job, for an inactive user with new quizzes: without a
  UserPreference row the channel resolves to email and the reminder hour to 18; when the
  current hour differs from the resolved reminder hour the loop body ends with no event and
  adds nothing to the count; when it is equal the loop body is the dispatch on the
  resolved channel.
\<close>

theorem remind_user_hour_gate:
  assumes "new_quizzes db upcoming u \<noteq> []"
  shows "(user_pref_of db u = None \<longrightarrow>
            resolve_notification_type (user_pref_of db u) = ''email''
            \<and> resolve_reminder_time (user_pref_of db u) = 18)
       \<and> (hour (loop_now e k) \<noteq> resolve_reminder_time (user_pref_of db u) \<longrightarrow>
            remind_user e db upcoming k u = (Inr 0, []))
       \<and> (hour (loop_now e k) = resolve_reminder_time (user_pref_of db u) \<longrightarrow>
            remind_user e db upcoming k u
              = dispatch_reminder e u (new_quizzes db upcoming u) (user_pref_of db u)
                  (resolve_notification_type (user_pref_of db u)))"
  using assms
  by (simp add: remind_user_def Let_def resolve_notification_type_def resolve_reminder_time_def)

theorem remind_user_hour_gate_witness:
  "new_quizzes db_demo (upcoming_quizzes db_demo (mk_date 2024 6 1)) ann \<noteq> []
   \<and> user_pref_of db_demo ann = None
   \<and> resolve_reminder_time (user_pref_of db_demo ann) = 18
   \<and> remind_user (env_demo 17) db_demo (upcoming_quizzes db_demo (mk_date 2024 6 1)) 0 ann
       = (Inr 0, [])
   \<and> fst (remind_user (env_demo 18) db_demo (upcoming_quizzes db_demo (mk_date 2024 6 1)) 0 ann)
       = Inr 1
   \<and> send_daily_reminders (env_demo 17) db_demo = (Inr ''Daily reminders sent to 0 users'', [])
   \<and> map (\<lambda>ev. case ev of MailSend m \<Rightarrow> msg_recipients m | _ \<Rightarrow> [])
         (snd (send_daily_reminders (env_demo 18) db_demo))
       = [[''ann@example.com''], [''bob@example.com'']]"
proof -
  let ?up = "upcoming_quizzes db_demo (mk_date 2024 6 1)"
  have h: "new_quizzes db_demo ?up ann \<noteq> []"
    by code_simp
  have p: "user_pref_of db_demo ann = None"
    by code_simp
  have h17: "hour (loop_now (env_demo 17) 0) \<noteq> 18"
    by (simp add: env_demo_def)
  from remind_user_hour_gate [OF h, of "env_demo 17" 0] p
  have t: "resolve_reminder_time (user_pref_of db_demo ann) = 18"
    by blast
  from remind_user_hour_gate [OF h, of "env_demo 17" 0] t h17
  have s: "remind_user (env_demo 17) db_demo ?up 0 ann = (Inr 0, [])"
    by simp
  have d: "fst (remind_user (env_demo 18) db_demo ?up 0 ann) = Inr 1"
    by code_simp
  have j17: "send_daily_reminders (env_demo 17) db_demo
               = (Inr ''Daily reminders sent to 0 users'', [])"
    by code_simp
  have j18: "map (\<lambda>ev. case ev of MailSend m \<Rightarrow> msg_recipients m | _ \<Rightarrow> [])
               (snd (send_daily_reminders (env_demo 18) db_demo))
             = [[''ann@example.com''], [''bob@example.com'']]"
    by code_simp
  from h p t s d j17 j18 show ?thesis by blast
qed

text \<open>
  C10. A preference row with \<open>reminder_time = 0\<close> resolves to the reminder hour 18, and
  one with an empty \<open>notification_type\<close> resolves to email. So a user with reminder hour 0
  gets nothing from a run in hour 0, and a run in hour 18 dispatches to that user when
  there are new quizzes.
\<close>

theorem reminder_time_zero_resolves_to_18:
  "(reminder_time p = Some 0 \<longrightarrow> resolve_reminder_time (Some p) = 18)
   \<and> (notification_type p = Some [] \<longrightarrow> resolve_notification_type (Some p) = ''email'')
   \<and> (user_pref_of db u = Some p \<and> reminder_time p = Some 0 \<and> hour (loop_now e k) = 0 \<longrightarrow>
         remind_user e db upcoming k u = (Inr 0, []))
   \<and> (user_pref_of db u = Some p \<and> reminder_time p = Some 0 \<and> hour (loop_now e k) = 18
         \<and> new_quizzes db upcoming u \<noteq> [] \<longrightarrow>
         remind_user e db upcoming k u
           = dispatch_reminder e u (new_quizzes db upcoming u) (Some p)
               (resolve_notification_type (Some p)))"
  by (simp add: remind_user_def Let_def resolve_notification_type_def resolve_reminder_time_def)

theorem reminder_time_zero_resolves_to_18_witness:
  "user_pref_of db_demo bob = Some bob_pref
   \<and> reminder_time bob_pref = Some 0
   \<and> notification_type bob_pref = Some []
   \<and> resolve_reminder_time (Some bob_pref) = 18
   \<and> resolve_notification_type (Some bob_pref) = ''email''
   \<and> remind_user (env_demo 0) db_demo (upcoming_quizzes db_demo (mk_date 2024 6 1)) 1 bob
       = (Inr 0, [])
   \<and> fst (remind_user (env_demo 18) db_demo (upcoming_quizzes db_demo (mk_date 2024 6 1)) 1 bob)
       = Inr 1"
proof -
  let ?up = "upcoming_quizzes db_demo (mk_date 2024 6 1)"
  have p: "user_pref_of db_demo bob = Some bob_pref"
    by code_simp
  have r: "reminder_time bob_pref = Some 0" and n: "notification_type bob_pref = Some []"
    by (simp_all add: bob_pref_def)
  have h0: "hour (loop_now (env_demo 0) 1) = 0"
    by (simp add: env_demo_def)
  note inst = reminder_time_zero_resolves_to_18 [of bob_pref db_demo bob "env_demo 0" 1 ?up]
  from inst r have a: "resolve_reminder_time (Some bob_pref) = 18"
    by blast
  from inst n have b: "resolve_notification_type (Some bob_pref) = ''email''"
    by blast
  from inst p r h0 have c: "remind_user (env_demo 0) db_demo ?up 1 bob = (Inr 0, [])"
    by blast
  have d: "fst (remind_user (env_demo 18) db_demo ?up 1 bob) = Inr 1"
    by code_simp
  from p r n a b c d show ?thesis by blast
qed

subsection \<open>The opt-in flags\<close>

lemma find_clear_flags:
  "find (\<lambda>p. pref_user_id p = i) (map clear_flags ps)
     = map_option clear_flags (find (\<lambda>p. pref_user_id p = i) ps)"
  by (induction ps) (simp_all add: clear_flags_def)

lemma user_pref_of_same:
  assumes "same_but_flags db db'"
  shows "map_option clear_flags (user_pref_of db u) = map_option clear_flags (user_pref_of db' u)"
  using assms unfolding user_pref_of_def same_but_flags_def find_clear_flags [symmetric] by simp

lemma resolve_notification_type_clear:
  "resolve_notification_type (map_option clear_flags pr) = resolve_notification_type pr"
  by (cases pr) (simp_all add: resolve_notification_type_def clear_flags_def)

lemma resolve_reminder_time_clear:
  "resolve_reminder_time (map_option clear_flags pr) = resolve_reminder_time pr"
  by (cases pr) (simp_all add: resolve_reminder_time_def clear_flags_def)

lemma dispatch_reminder_clear:
  "dispatch_reminder e u nq (map_option clear_flags pr) nt = dispatch_reminder e u nq pr nt"
  by (cases pr) (simp_all add: dispatch_reminder_def clear_flags_def Let_def cong: if_cong)

lemma remind_user_same:
  assumes "same_but_flags db db'"
  shows "remind_user e db up k u = remind_user e db' up k u"
proof -
  define body where "body nq pr =
     (if nq = [] then (Inr 0, [])
      else if hour (loop_now e k) \<noteq> resolve_reminder_time pr then (Inr 0, [])
      else dispatch_reminder e u nq pr (resolve_notification_type pr))" for nq pr
  have nq: "new_quizzes db up u = new_quizzes db' up u"
    using assms by (simp add: new_quizzes_def user_quiz_ids_def same_but_flags_def)
  have b: "remind_user e d up k u
             = body (new_quizzes d up u) (map_option clear_flags (user_pref_of d u))" for d
    by (simp add: remind_user_def body_def Let_def resolve_notification_type_clear
          resolve_reminder_time_clear dispatch_reminder_clear)
  show ?thesis
    by (simp only: b nq user_pref_of_same [OF assms, of u])
qed

lemma remind_loop_same:
  assumes "same_but_flags db db'"
  shows "remind_loop e db up k us n = remind_loop e db' up k us n"
  by (induction us arbitrary: k n)
     (simp_all add: remind_user_same [OF assms] split: prod.splits sum.splits)

lemma send_daily_reminders_same:
  assumes "same_but_flags db db'"
  shows "send_daily_reminders e db = send_daily_reminders e db'"
proof -
  have "upcoming_quizzes db td = upcoming_quizzes db' td" for td
    using assms by (simp add: upcoming_quizzes_def same_but_flags_def)
  moreover have "inactive_users db r = inactive_users db' r" for r
    using assms by (simp add: inactive_users_def same_but_flags_def)
  ultimately show ?thesis
    by (simp add: send_daily_reminders_run remind_loop_same [OF assms]
          split: prod.splits sum.splits)
qed

lemma report_loop_same:
  assumes "same_but_flags db db'"
  shows "report_loop e db lm fd us = report_loop e db' lm fd us"
  using assms by (intro report_loop_agree) (simp_all add: same_but_flags_def)

lemma send_monthly_reports_same:
  assumes "same_but_flags db db'"
  shows "send_monthly_reports e db = send_monthly_reports e db'"
proof -
  have "report_users db = report_users db'"
    using assms by (simp add: report_users_def same_but_flags_def)
  then show ?thesis
    by (simp add: send_monthly_reports_run report_loop_same [OF assms]
          split: prod.splits sum.splits)
qed

text \<open>
  C9. Neither scheduler reads the opt-in flags: on two stores that differ at most in the
  values of \<open>receive_daily_reminders\<close> and \<open>receive_monthly_reports\<close>, the daily reminder
  job and the monthly report job give the same events in the same order and the same
  result, in every environment. So a user who has opted out is notified all the same.
\<close>

theorem schedulers_ignore_opt_in_flags:
  assumes "same_but_flags db db'"
  shows "send_daily_reminders e db = send_daily_reminders e db'
         \<and> send_monthly_reports e db = send_monthly_reports e db'"
  using send_daily_reminders_same [OF assms] send_monthly_reports_same [OF assms] by simp

theorem schedulers_ignore_opt_in_flags_witness:
  "same_but_flags db_demo db_demo_opted_in
   \<and> receive_daily_reminders bob_pref = False
   \<and> send_daily_reminders (env_demo 18) db_demo_opted_in
       = send_daily_reminders (env_demo 18) db_demo
   \<and> send_monthly_reports (env_demo 8) db_demo_opted_in
       = send_monthly_reports (env_demo 8) db_demo
   \<and> map (\<lambda>ev. case ev of MailSend m \<Rightarrow> msg_recipients m | _ \<Rightarrow> [])
         (snd (send_daily_reminders (env_demo 18) db_demo))
       = [[''ann@example.com''], [''bob@example.com'']]"
proof -
  have h: "same_but_flags db_demo db_demo_opted_in"
    by code_simp
  have f: "receive_daily_reminders bob_pref = False"
    by (simp add: bob_pref_def)
  have m: "map (\<lambda>ev. case ev of MailSend m \<Rightarrow> msg_recipients m | _ \<Rightarrow> [])
             (snd (send_daily_reminders (env_demo 18) db_demo))
           = [[''ann@example.com''], [''bob@example.com'']]"
    by code_simp
  from schedulers_ignore_opt_in_flags [OF h, of "env_demo 18"]
  have d: "send_daily_reminders (env_demo 18) db_demo_opted_in
             = send_daily_reminders (env_demo 18) db_demo"
    by simp
  from schedulers_ignore_opt_in_flags [OF h, of "env_demo 8"]
  have r: "send_monthly_reports (env_demo 8) db_demo_opted_in
             = send_monthly_reports (env_demo 8) db_demo"
    by simp
  from h f d r m show ?thesis by blast
qed

end
